theory Spec2Isabelle
  imports Complex_Main "HOL-Library.AList"
begin

section \<open>Python exceptions\<close>

text \<open>
  Every \<^verbatim>\<open>raise\<close> of the sources, and every exception the interpreter raises on the
  paths modelled here (a missing dictionary key, an unbound local, a division by zero,
  \<^verbatim>\<open>statistics.mean\<close> of an empty list), is a value of this type. A function that can
  raise returns \<open>error + 'a\<close>, and a function that also mutates its object returns the
  object as it is left behind, next to the result: an exception does not undo the writes
  made before it.
\<close>

datatype error =
    ValueError
  | KeyError
  | IndexError
  | AttributeError
  | UnboundLocalError
  | ZeroDivisionError
  | StatisticsError

section \<open>Reachability scoring of a base pose (robot/base\_map.py, robot/reuleaux.py)\<close>

text \<open>
  A Python float is modelled by the real number it denotes: \<^verbatim>\<open>1.415\<close> is the real
  \<open>1415/1000\<close>, and the comparisons of the scoring rule are comparisons of reals. Where a
  result depends on the rounding of a double operation, the rounding is written out:
  \<^verbatim>\<open>statistics.mean\<close> returns the double nearest to the exact mean (\<open>round_to_double\<close>
  below). Points (\<open>'p\<close>) and frames (\<open>'f\<close>) belong to the geometry library and stay
  abstract.
\<close>

text \<open>\<^verbatim>\<open>WsSphere\<close> and \<^verbatim>\<open>ReuleauxReachability\<close>, with the fields the scoring reads
  (\<^verbatim>\<open>header\<close> and \<^verbatim>\<open>poses\<close> are carried along by the source and never read there).\<close>

record 'p WsSphere =
  point :: 'p
  ri :: real

record 'p ReuleauxReachability =
  spheres :: "'p WsSphere list"
  resolution :: real

text \<open>
  One entry of \<^verbatim>\<open>KDTree.nearest_neighbors\<close>: the label of the sample (its index in the list
  the tree was built from) and its distance to the query point. \<open>None\<close> is the entry
  \<^verbatim>\<open>(None, None, inf)\<close> the tree gives when it has no further sample.
\<close>

type_synonym nbr = "(nat \<times> real) option"

text \<open>The dictionary \<^verbatim>\<open>reuleaux_data\<close> built by the query, one field per key.\<close>

record 'p reuleaux_data_t =
  goal_points :: "'p list"
  collision_points :: "'p list option"
  reuleaux_points :: "'p list"
  goal_reuleaux_index :: "real list"
  collision_reuleaux_index :: "real list"
  reachable :: "bool list"

text \<open>A node of the base-pose map, with the attributes the query reads and writes.\<close>

record ('f, 'p) base_node =
  frame :: 'f
  mean_reuleaux_index :: "real option"
  reuleaux_data :: "'p reuleaux_data_t option"

text \<open>\<^verbatim>\<open>BaseMap.base_map\<close>: the nodes in insertion order and the key counter of the
  network (\<^verbatim>\<open>_max_node\<close>, from which \<^verbatim>\<open>add_node\<close> draws the next key).\<close>

record ('f, 'p) BaseMap =
  base_map :: "(int \<times> ('f, 'p) base_node) list"
  base_max_node :: int

text \<open>
  The two spatial queries are answered by the geometry library's k-d tree; the model takes
  them as parameters:
  \<^item> \<open>map_nearest_neighbor\<close> is \<^verbatim>\<open>self.kdtree.nearest_neighbor(pose.point)\<close> over the frames of
    the map's nodes: the key of the nearest node and its distance, or \<open>None\<close> for an empty
    map (distance \<^verbatim>\<open>inf\<close>);
  \<^item> \<open>kdtree_transformed\<close> is \<^verbatim>\<open>reuleaux.get_kdtree_transformed(T)\<close> for the change of basis
    \<open>T\<close> of the pose: the transformed sample points, and for a query point the answer of
    \<^verbatim>\<open>nearest_neighbors(pt, 2, distance_sort=True)\<close>, nearest first.
\<close>

record ('f, 'p) kd_kernel =
  map_nearest_neighbor :: "(int \<times> 'f) list \<Rightarrow> 'f \<Rightarrow> (int \<times> real) option"
  kdtree_transformed :: "'f \<Rightarrow> 'p WsSphere list \<Rightarrow> ('p \<Rightarrow> nbr \<times> nbr) \<times> 'p list"

text \<open>\<^verbatim>\<open>d[k][2] < (reuleaux.resolution*1.415)\<close>; an infinite distance is below no threshold.\<close>

definition below_threshold :: "real \<Rightarrow> nbr \<Rightarrow> bool" where
  "below_threshold res d =
     (case d of None \<Rightarrow> False | Some (_, dst) \<Rightarrow> dst < res * (1415 / 1000))"

text \<open>\<^verbatim>\<open>reuleaux.spheres[d[0][1]].ri\<close>.\<close>

definition sphere_ri :: "'p ReuleauxReachability \<Rightarrow> nbr \<Rightarrow> error + real" where
  "sphere_ri reuleaux d =
     (case d of
        None \<Rightarrow> Inl IndexError
      | Some (label, _) \<Rightarrow>
          if label < length (spheres reuleaux) then Inr (ri (spheres reuleaux ! label))
          else Inl IndexError)"

text \<open>The loop over \<^verbatim>\<open>zip(goal_data, goal_pointcloud.points)\<close> (lines 60-70): each point
  appends one entry to \<^verbatim>\<open>goal_reuleaux_index\<close> and one to \<^verbatim>\<open>reachable\<close>.\<close>

fun score_goal_points ::
  "'p ReuleauxReachability \<Rightarrow> (nbr \<times> nbr) list \<Rightarrow> 'p reuleaux_data_t \<Rightarrow> error + 'p reuleaux_data_t"
where
  "score_goal_points reuleaux [] rd = Inr rd"
| "score_goal_points reuleaux (d # ds) rd =
     (if below_threshold (resolution reuleaux) (fst d) \<and> below_threshold (resolution reuleaux) (snd d)
      then (case sphere_ri reuleaux (fst d) of
              Inl e \<Rightarrow> Inl e
            | Inr point_ri \<Rightarrow>
                score_goal_points reuleaux ds
                  (rd\<lparr>goal_reuleaux_index := goal_reuleaux_index rd @ [point_ri],
                      reachable := reachable rd @ [True]\<rparr>))
      else score_goal_points reuleaux ds
             (rd\<lparr>goal_reuleaux_index := goal_reuleaux_index rd @ [0],
                 reachable := reachable rd @ [False]\<rparr>))"

text \<open>The loop over the collision points (lines 75-81): one entry of
  \<^verbatim>\<open>collision_reuleaux_index\<close> per point.\<close>

fun score_collision_points ::
  "'p ReuleauxReachability \<Rightarrow> (nbr \<times> nbr) list \<Rightarrow> 'p reuleaux_data_t \<Rightarrow> error + 'p reuleaux_data_t"
where
  "score_collision_points reuleaux [] rd = Inr rd"
| "score_collision_points reuleaux (d # ds) rd =
     (if below_threshold (resolution reuleaux) (fst d) \<and> below_threshold (resolution reuleaux) (snd d)
      then (case sphere_ri reuleaux (fst d) of
              Inl e \<Rightarrow> Inl e
            | Inr point_ri \<Rightarrow>
                score_collision_points reuleaux ds
                  (rd\<lparr>collision_reuleaux_index := collision_reuleaux_index rd @ [point_ri]\<rparr>))
      else score_collision_points reuleaux ds
             (rd\<lparr>collision_reuleaux_index := collision_reuleaux_index rd @ [0]\<rparr>))"

text \<open>
  Rounding to the nearest double (IEEE 754 binary64, ties to even): a real \<open>x\<close> with
  \<open>2^e \<le> |x| < 2^(e+1)\<close> is rounded to a multiple of \<open>2^(e-52)\<close>, and below \<open>2^-1022\<close> to a
  multiple of \<open>2^-1074\<close>. Magnitudes that overflow a double do not occur as the mean of
  doubles.
\<close>

definition round_half_even :: "real \<Rightarrow> int" where
  "round_half_even y =
     (let f = \<lfloor>y\<rfloor> in
      if y - of_int f < 1 / 2 then f
      else if 1 / 2 < y - of_int f then f + 1
      else if even f then f else f + 1)"

definition round_to_double :: "real \<Rightarrow> real" where
  "round_to_double x =
     (if x = 0 then 0
      else (let e = max \<lfloor>log 2 \<bar>x\<bar>\<rfloor> (- 1022);
                ulp = 2 powr (of_int e - 52)
            in of_int (round_half_even (x / ulp)) * ulp))"

text \<open>\<^verbatim>\<open>statistics.mean\<close>: \<^verbatim>\<open>StatisticsError\<close> on no data; otherwise the sum is taken
  exactly, divided by the number of entries, and the quotient converted to a double.\<close>

definition mean :: "real list \<Rightarrow> error + real" where
  "mean xs =
     (if xs = [] then Inl StatisticsError
      else Inr (round_to_double (sum_list xs / real (length xs))))"

text \<open>Lines 83-88: the aggregate score from the two index lists. \<open>with_collision\<close> is
  \<^verbatim>\<open>collision_pointcloud is not None\<close>.\<close>

definition ri_mean :: "bool \<Rightarrow> 'p reuleaux_data_t \<Rightarrow> error + real" where
  "ri_mean with_collision rd =
     (case mean (goal_reuleaux_index rd) of
        Inl e \<Rightarrow> Inl e
      | Inr goal_ri_mean \<Rightarrow>
          if with_collision then
            (case mean (collision_reuleaux_index rd) of
               Inl e \<Rightarrow> Inl e
             | Inr collision_ri_mean \<Rightarrow>
                 mean (replicate (length (goal_reuleaux_index rd)) goal_ri_mean
                       @ replicate (length (collision_reuleaux_index rd)) (collision_ri_mean * (- 1))))
          else Inr goal_ri_mean)"

text \<open>\<^verbatim>\<open>add_pose\<close>: a new node under the next key of the network.\<close>

definition add_pose ::
  "'f \<Rightarrow> real \<Rightarrow> 'p reuleaux_data_t \<Rightarrow> ('f, 'p) BaseMap \<Rightarrow> int \<times> ('f, 'p) BaseMap"
where
  "add_pose pose score rd bm =
     (let key = base_max_node bm + 1;
          nd = \<lparr>frame = pose, mean_reuleaux_index = Some score, reuleaux_data = Some rd\<rparr>
      in (key, bm\<lparr>base_map := AList.update key nd (base_map bm), base_max_node := key\<rparr>))"

text \<open>The two \<^verbatim>\<open>node_attribute(id, name, value)\<close> writes of lines 93-94; the network raises
  \<^verbatim>\<open>KeyError\<close> for a key it does not hold.\<close>

definition set_scores ::
  "int \<Rightarrow> real \<Rightarrow> 'p reuleaux_data_t \<Rightarrow> ('f, 'p) BaseMap \<Rightarrow> error + ('f, 'p) BaseMap"
where
  "set_scores key score rd bm =
     (case map_of (base_map bm) key of
        None \<Rightarrow> Inl KeyError
      | Some nd \<Rightarrow>
          Inr (bm\<lparr>base_map :=
                 AList.update key (nd\<lparr>mean_reuleaux_index := Some score, reuleaux_data := Some rd\<rparr>)
                   (base_map bm)\<rparr>))"

text \<open>
  \<^verbatim>\<open>BaseMap.get_reuleaux_index_by_base_pose\<close>. The result is paired with the map as the call
  leaves it. \<open>goal_pointcloud\<close> is the list \<^verbatim>\<open>goal_pointcloud.points\<close>, and
  \<open>collision_pointcloud\<close> is \<open>None\<close> for the default \<^verbatim>\<open>collision_pointcloud=None\<close>.
\<close>

definition get_reuleaux_index_by_base_pose ::
  "('f, 'p) kd_kernel \<Rightarrow> 'f \<Rightarrow> 'p ReuleauxReachability \<Rightarrow> 'p list \<Rightarrow> 'p list option \<Rightarrow>
   ('f, 'p) BaseMap \<Rightarrow> (error + int \<times> 'p reuleaux_data_t) \<times> ('f, 'p) BaseMap"
where
  "get_reuleaux_index_by_base_pose K pose reuleaux goal_pointcloud collision_pointcloud self =
     (if resolution reuleaux = 0 then (Inl ValueError, self)
      else
        let nearest = map_nearest_neighbor K (map (\<lambda>(key, nd). (key, frame nd)) (base_map self)) pose;
            (kdtree, rpoints) = kdtree_transformed K pose (spheres reuleaux);
            rd0 = \<lparr>goal_points = goal_pointcloud, collision_points = None,
                   reuleaux_points = rpoints, goal_reuleaux_index = [],
                   collision_reuleaux_index = [], reachable = []\<rparr>
        in case score_goal_points reuleaux (map kdtree goal_pointcloud) rd0 of
             Inl e \<Rightarrow> (Inl e, self)
           | Inr rd1 \<Rightarrow>
              (case (case collision_pointcloud of
                       None \<Rightarrow> Inr rd1
                     | Some cps \<Rightarrow>
                         score_collision_points reuleaux (map kdtree cps)
                           (rd1\<lparr>collision_points := Some cps\<rparr>)) of
                 Inl e \<Rightarrow> (Inl e, self)
               | Inr rd2 \<Rightarrow>
                  (case ri_mean (collision_pointcloud \<noteq> None) rd2 of
                     Inl e \<Rightarrow> (Inl e, self)
                   | Inr score \<Rightarrow>
                      (case nearest of
                         None \<Rightarrow>
                           (let (key, bm) = add_pose pose score rd2 self in (Inr (key, rd2), bm))
                       | Some (nid, distance) \<Rightarrow>
                           if distance > 1 / 100
                           then (let (key, bm) = add_pose pose score rd2 self in (Inr (key, rd2), bm))
                           else (case set_scores nid score rd2 self of
                                   Inl e \<Rightarrow> (Inl e, self)
                                 | Inr bm \<Rightarrow> (Inr (nid, rd2), bm))))))"

text \<open>
  The reference the aggregate score is compared with, as the specification words it: every
  goal index and the negation of every collision index, each point weighing the same:
  (sum of the goal indices - sum of the collision indices) / (number of goal points +
  number of collision points), as a real number.
\<close>

definition reference_score :: "real list \<Rightarrow> real list \<Rightarrow> real" where
  "reference_score goal_indices collision_indices =
     (sum_list goal_indices - sum_list collision_indices)
       / real (length goal_indices + length collision_indices)"

subsection \<open>Small datasets on a line\<close>

text \<open>
  Points and frames are real numbers, the distance is the absolute difference, and the
  change of basis is the identity. The tree answers for datasets of up to two samples,
  which is what the examples use; no example has two samples at the same distance from
  a query point. The map's tree answers for maps of at most one node.
\<close>

definition ex_kernel :: "(real, real) kd_kernel" where
  "ex_kernel =
     \<lparr>map_nearest_neighbor =
        (\<lambda>nodes pose. case nodes of [] \<Rightarrow> None | (key, f) # _ \<Rightarrow> Some (key, \<bar>pose - f\<bar>)),
      kdtree_transformed =
        (\<lambda>pose sph.
           (\<lambda>pt. case sph of
                    [] \<Rightarrow> (None, None)
                  | [s0] \<Rightarrow> (Some (0, \<bar>pt - point s0\<bar>), None)
                  | s0 # s1 # _ \<Rightarrow>
                      if \<bar>pt - point s0\<bar> < \<bar>pt - point s1\<bar>
                      then (Some (0, \<bar>pt - point s0\<bar>), Some (1, \<bar>pt - point s1\<bar>))
                      else (Some (1, \<bar>pt - point s1\<bar>), Some (0, \<bar>pt - point s0\<bar>)),
            map point sph))\<rparr>"

text \<open>Samples at 0 (index 4) and at 2.8291 (index 7), resolution 1, and an empty map.\<close>

definition ex_reuleaux :: "real ReuleauxReachability" where
  "ex_reuleaux =
     \<lparr>spheres = [\<lparr>point = 0, ri = 4\<rparr>, \<lparr>point = 28291 / 10000, ri = 7\<rparr>], resolution = 1\<rparr>"

definition ex_base_map :: "(real, real) BaseMap" where
  "ex_base_map = \<lparr>base_map = [], base_max_node = - 1\<rparr>"

text \<open>The dictionary the query builds for the goal points 1.4145 and 100 and the collision
  point 1.4146 on that dataset, and the map it leaves behind.\<close>

definition ex_rd :: "real reuleaux_data_t" where
  "ex_rd = \<lparr>goal_points = [2829 / 2000, 100], collision_points = Some [14146 / 10000],
            reuleaux_points = [0, 28291 / 10000], goal_reuleaux_index = [4, 0],
            collision_reuleaux_index = [7], reachable = [True, False]\<rparr>"

definition ex_base_map_1 :: "(real, real) BaseMap" where
  "ex_base_map_1 =
     \<lparr>base_map = [(0, \<lparr>frame = 0, mean_reuleaux_index = Some (- 1), reuleaux_data = Some ex_rd\<rparr>)],
      base_max_node = 0\<rparr>"

text \<open>The dictionary of a second query at the same pose, for the goal point 1.4145 and the
  collision point 1.4146.\<close>

definition ex_rd_2 :: "real reuleaux_data_t" where
  "ex_rd_2 = \<lparr>goal_points = [2829 / 2000], collision_points = Some [14146 / 10000],
              reuleaux_points = [0, 28291 / 10000], goal_reuleaux_index = [4],
              collision_reuleaux_index = [7], reachable = [True]\<rparr>"

text \<open>A dataset whose two samples, at 0 and at 1, both have index 1.\<close>

definition ex_unit :: "real ReuleauxReachability" where
  "ex_unit =
     \<lparr>spheres = [\<lparr>point = 0, ri = 1\<rparr>, \<lparr>point = 1, ri = 1\<rparr>], resolution = 1\<rparr>"

section \<open>The assembly (assembly/assembly.py)\<close>

subsection \<open>Elements and the object store\<close>

text \<open>
  Modelled from the spec: the class \<^verbatim>\<open>Element\<close> (assembly/element.py is not among the
  sources). The specification gives an element a pose with its derived connector frames
  and centre line, and two connector states, booleans with open = true. The geometry is
  one abstract value \<open>'g\<close> of the geometry library; \<^verbatim>\<open>Element.copy\<close> returns a new object
  with the same attributes, and \<^verbatim>\<open>Element.transform\<close> changes the geometry only.
\<close>

record 'g Element =
  geometry :: 'g
  connector_1_state :: bool
  connector_2_state :: bool

text \<open>
  Elements are Python objects: the network's nodes refer to them, and the placement code
  writes to an element through whichever name it holds (\<^verbatim>\<open>current_elem\<close>,
  \<^verbatim>\<open>previous_elem\<close>, \<^verbatim>\<open>my_new_elem\<close> may be the same object). The store is a list of
  elements; an object is its position in the list. Values of dictionaries:
\<close>

datatype 'g val =
    VNone
  | VBool bool
  | VStr string
  | VInt int
  | VNum real
  | VGeo 'g
  | VElem nat

text \<open>A Python dictionary with string keys, in insertion order, and \<^verbatim>\<open>dict.update\<close>.\<close>

type_synonym 'g attrs = "(string \<times> 'g val) list"

definition dict_update :: "('k \<times> 'v) list \<Rightarrow> ('k \<times> 'v) list \<Rightarrow> ('k \<times> 'v) list" where
  "dict_update d kw = fold (\<lambda>(k, v). AList.update k v) kw d"

subsection \<open>The network of the geometry library\<close>

text \<open>
  \<^verbatim>\<open>compas.datastructures.Network\<close> (compas 1.x) is not part of the repository; these are its
  \<^verbatim>\<open>node\<close> and \<^verbatim>\<open>edge\<close> dictionaries and the key counter \<^verbatim>\<open>_max_node\<close> (initially -1).
  An edge is stored once under the pair \<open>(u, v)\<close>: \<^verbatim>\<open>edge[u][v]\<close>.
\<close>

record 'g Network =
  node :: "(int \<times> 'g attrs) list"
  edge :: "((int \<times> int) \<times> 'g attrs) list"
  max_node :: int

text \<open>
  \<^verbatim>\<open>Network.add_node(key, attr_dict, **kwattr)\<close>. With no key the next key is
  \<^verbatim>\<open>_max_node + 1\<close>. The line \<^verbatim>\<open>attr = attr_dict or {}\<close> makes \<open>attr\<close> the caller's dictionary
  when that is not empty, so \<^verbatim>\<open>attr.update(kwattr)\<close> writes into the caller's dictionary;
  the second component of the result is the caller's dictionary as the call leaves it.
\<close>

definition add_node ::
  "int option \<Rightarrow> 'g attrs \<Rightarrow> 'g attrs \<Rightarrow> 'g Network \<Rightarrow> int \<times> 'g attrs \<times> 'g Network"
where
  "add_node key attr_dict kwattr nw =
     (let k = (case key of None \<Rightarrow> max_node nw + 1 | Some k' \<Rightarrow> k');
          mx = (case key of
                  None \<Rightarrow> max_node nw + 1
                | Some k' \<Rightarrow> if k' > max_node nw then k' else max_node nw);
          attr = dict_update attr_dict kwattr;
          old = (case map_of (node nw) k of None \<Rightarrow> [] | Some d \<Rightarrow> d)
      in (k, (if attr_dict = [] then [] else attr),
          nw\<lparr>node := AList.update k (dict_update old attr) (node nw), max_node := mx\<rparr>))"

text \<open>\<^verbatim>\<open>Network.add_edge(u, v, **kwattr)\<close>: an end that is no node yet is added as a node
  without attributes; an edge already stored under \<open>(u, v)\<close> has its attributes updated.\<close>

definition add_edge :: "int \<Rightarrow> int \<Rightarrow> 'g attrs \<Rightarrow> 'g Network \<Rightarrow> 'g Network" where
  "add_edge u v kwattr nw =
     (let nw1 = (if map_of (node nw) u = None then snd (snd (add_node (Some u) [] [] nw)) else nw);
          nw2 = (if map_of (node nw1) v = None then snd (snd (add_node (Some v) [] [] nw1)) else nw1);
          data = (case map_of (edge nw2) (u, v) of None \<Rightarrow> [] | Some d \<Rightarrow> d)
      in nw2\<lparr>edge := AList.update (u, v) (dict_update data kwattr) (edge nw2)\<rparr>)"

definition number_of_nodes :: "'g Network \<Rightarrow> nat" where
  "number_of_nodes nw = length (node nw)"

definition number_of_edges :: "'g Network \<Rightarrow> nat" where
  "number_of_edges nw = length (edge nw)"

subsection \<open>The assembly and its geometry\<close>

text \<open>
  The state of an \<^verbatim>\<open>Assembly\<close>: its network, the store of element objects, and the
  dictionary that is the default value of the parameter \<^verbatim>\<open>attr_dict={}\<close> of
  \<^verbatim>\<open>add_element\<close>. Python evaluates a default once, when the function is defined, so
  that dictionary is one object for all calls.
\<close>

record 'g Assembly =
  network :: "'g Network"
  heap :: "'g Element list"
  attr_dict_default :: "'g attrs"

text \<open>
  What the placement code asks of the geometry library, as parameters:
  \<^item> \<open>frame_point\<close>: \<^verbatim>\<open>element.frame.point\<close>;
  \<^item> \<open>rf_unit_transform g use_1 robot m angle shift_value\<close>: the geometry of the copy of an
    element of geometry \<open>g\<close> after \<^verbatim>\<open>transform(R1*T1)\<close> and \<^verbatim>\<open>transform(R2*T3)\<close>, where
    \<open>use_1\<close> says that connector frame 1 (else 2) is the current connector frame, \<open>robot\<close>
    selects the rotation by 120 (else 240) degrees, and \<open>m\<close> is the multiplier \<open>a\<close> or \<open>b\<close>
    of the translation (the rod length, radius and offset of \<^verbatim>\<open>self.globals\<close> are fixed);
  \<^item> \<open>connector_distance g use_1 base_frame\<close>: \<^verbatim>\<open>distance_point_point\<close> from the point of
    connector frame 1 (else 2) to the point of the base frame.
\<close>

record 'g geo_kernel =
  frame_point :: "'g \<Rightarrow> real \<times> real \<times> real"
  rf_unit_transform :: "'g \<Rightarrow> bool \<Rightarrow> bool \<Rightarrow> int \<Rightarrow> real \<Rightarrow> real \<Rightarrow> 'g"
  connector_distance :: "'g \<Rightarrow> bool \<Rightarrow> 'g \<Rightarrow> real"

text \<open>
  \<^verbatim>\<open>Assembly.add_element(element, key=None, attr_dict={}, **kwattr)\<close>. The element enters the
  store at the next position. \<open>attr_dict = None\<close> is a call that leaves the parameter to its
  default, the shared dictionary; both \<^verbatim>\<open>attr_dict.update(kwattr)\<close> and the network's
  \<^verbatim>\<open>add_node\<close> write into it.
\<close>

definition add_element ::
  "'g geo_kernel \<Rightarrow> 'g Element \<Rightarrow> int option \<Rightarrow> 'g attrs option \<Rightarrow> 'g attrs \<Rightarrow>
   'g Assembly \<Rightarrow> int \<times> 'g Assembly"
where
  "add_element K element key attr_dict kwattr s =
     (let ad = dict_update (case attr_dict of None \<Rightarrow> attr_dict_default s | Some d \<Rightarrow> d) kwattr;
          (x, y, z) = frame_point K (geometry element);
          (k, ad', nw) =
             add_node key ad
               [(''x'', VNum x), (''y'', VNum y), (''z'', VNum z),
                (''element'', VElem (length (heap s)))]
               (network s)
      in (k, s\<lparr>network := nw, heap := heap s @ [element],
               attr_dict_default :=
                 (case attr_dict of None \<Rightarrow> ad' | Some d \<Rightarrow> attr_dict_default s)\<rparr>))"

text \<open>
  \<^verbatim>\<open>self.network.node[key]['element']\<close>: \<^verbatim>\<open>KeyError\<close> for a key that is no node and for a
  node without that attribute (a node that \<^verbatim>\<open>add_edge\<close> created). An attribute value that
  is no element object fails at the first use of one of its attributes.
\<close>

definition node_element :: "'g Assembly \<Rightarrow> int \<Rightarrow> error + nat" where
  "node_element s key =
     (case map_of (node (network s)) key of
        None \<Rightarrow> Inl KeyError
      | Some d \<Rightarrow>
          (case map_of d ''element'' of
             None \<Rightarrow> Inl KeyError
           | Some (VElem a) \<Rightarrow> if a < length (heap s) then Inr a else Inl AttributeError
           | Some _ \<Rightarrow> Inl AttributeError))"

text \<open>Assignments \<^verbatim>\<open>elem.connector_1_state = v\<close> and \<^verbatim>\<open>elem.connector_2_state = v\<close>. An object
  that is not in the assembly's store is not part of the state.\<close>

definition set_connector_1_state :: "nat \<Rightarrow> bool \<Rightarrow> 'g Element list \<Rightarrow> 'g Element list" where
  "set_connector_1_state a v h =
     (if a < length h then h[a := (h ! a)\<lparr>connector_1_state := v\<rparr>] else h)"

definition set_connector_2_state :: "nat \<Rightarrow> bool \<Rightarrow> 'g Element list \<Rightarrow> 'g Element list" where
  "set_connector_2_state a v h =
     (if a < length h then h[a := (h ! a)\<lparr>connector_2_state := v\<rparr>] else h)"

subsection \<open>The connector transition table\<close>

text \<open>Lines 506-518: the four \<^verbatim>\<open>if flip == ...\<close> statements under
  \<^verbatim>\<open>if current_elem.connector_2_state\<close>, in the order of the source.\<close>

definition table_connector_2 :: "string \<Rightarrow> nat \<Rightarrow> nat \<Rightarrow> 'g Element list \<Rightarrow> 'g Element list" where
  "table_connector_2 flip previous_elem my_new_elem h =
     (let h1 = (if flip = ''AA''
                then set_connector_2_state my_new_elem False (set_connector_2_state previous_elem False h)
                else h);
          h2 = (if flip = ''AB''
                then set_connector_1_state my_new_elem False (set_connector_2_state previous_elem False h1)
                else h1);
          h3 = (if flip = ''BA''
                then set_connector_2_state my_new_elem False (set_connector_1_state previous_elem False h2)
                else h2)
      in (if flip = ''BB''
          then set_connector_1_state my_new_elem False (set_connector_1_state previous_elem False h3)
          else h3))"

text \<open>Lines 519-531: the same under \<^verbatim>\<open>if current_elem.connector_1_state\<close>.\<close>

definition table_connector_1 :: "string \<Rightarrow> nat \<Rightarrow> nat \<Rightarrow> 'g Element list \<Rightarrow> 'g Element list" where
  "table_connector_1 flip previous_elem my_new_elem h =
     (let h1 = (if flip = ''AA''
                then set_connector_1_state my_new_elem False (set_connector_1_state previous_elem False h)
                else h);
          h2 = (if flip = ''AB''
                then set_connector_2_state my_new_elem False (set_connector_1_state previous_elem False h1)
                else h1);
          h3 = (if flip = ''BA''
                then set_connector_1_state my_new_elem False (set_connector_2_state previous_elem False h2)
                else h2)
      in (if flip = ''BB''
          then set_connector_2_state my_new_elem False (set_connector_2_state previous_elem False h3)
          else h3))"

text \<open>
  \<^verbatim>\<open>Assembly.update_connectors_states\<close>. \<^verbatim>\<open>keys\<close> is the list of the nodes' positions
  \<open>0, ..., n - 1\<close>, and \<^verbatim>\<open>keys[-2]\<close>, read as a node key, names the previous element:
  \<^verbatim>\<open>IndexError\<close> with fewer than two nodes. The second test reads the current element
  after the writes of the first block.
\<close>

definition update_connectors_states ::
  "int \<Rightarrow> string \<Rightarrow> nat \<Rightarrow> int \<Rightarrow> 'g Assembly \<Rightarrow> (error + unit) \<times> 'g Assembly"
where
  "update_connectors_states current_key flip my_new_elem unit_index s =
     (case node_element s current_key of
        Inl e \<Rightarrow> (Inl e, s)
      | Inr current_elem \<Rightarrow>
          if number_of_nodes (network s) < 2 then (Inl IndexError, s)
          else
            (case node_element s (int (number_of_nodes (network s)) - 2) of
               Inl e \<Rightarrow> (Inl e, s)
             | Inr previous_elem \<Rightarrow>
                 if unit_index = 1 then
                   (let h1 = (if connector_2_state (heap s ! current_elem)
                              then table_connector_2 flip previous_elem my_new_elem (heap s)
                              else heap s);
                        h2 = (if connector_1_state (h1 ! current_elem)
                              then table_connector_1 flip previous_elem my_new_elem h1
                              else h1)
                    in (Inr (), s\<lparr>heap := h2\<rparr>))
                 else (Inr (), s)))"

subsection \<open>Placing a unit\<close>

text \<open>Lines 206-215: the multipliers \<open>a\<close> and \<open>b\<close>. No branch assigns them for a flip code
  outside the four; \<open>None\<close> is a local variable that is not bound.\<close>

definition flip_multipliers :: "string \<Rightarrow> int \<Rightarrow> int option \<times> int option" where
  "flip_multipliers flip c =
     (let ab1 = (if flip = ''AA'' then (Some 0, Some 0) else (None, None));
          ab2 = (if flip = ''AB'' then (Some 0, Some (1 * c)) else ab1);
          ab3 = (if flip = ''BA'' then (Some (1 * c), Some 0) else ab2)
      in (if flip = ''BB'' then (Some (1 * c), Some (1 * c)) else ab3))"

text \<open>
  \<^verbatim>\<open>Assembly.add_rf_unit_element\<close>. The result is the new element (its place in the store),
  paired with the assembly as the call leaves it. The copy is a local object until
  \<^verbatim>\<open>add_element\<close> hands it to the network. An unbound \<open>a\<close> (for the robot) or \<open>b\<close> (for
  anyone else) raises where \<open>T1\<close> is computed, lines 221 and 224. The dictionary
  \<^verbatim>\<open>self.globals\<close> is configuration set outside the sources; it is taken to hold the four
  entries read in lines 189-192, whose values enter \<open>rf_unit_transform\<close> only.
\<close>

definition add_rf_unit_element ::
  "'g geo_kernel \<Rightarrow> int \<Rightarrow> string \<Rightarrow> real \<Rightarrow> real \<Rightarrow> string \<Rightarrow> bool \<Rightarrow> int \<Rightarrow> 'g val \<Rightarrow> 'g val \<Rightarrow>
   'g Assembly \<Rightarrow> (error + nat) \<times> 'g Assembly"
where
  "add_rf_unit_element K current_key flip angle shift_value placed_by on_ground unit_index
       frame_id frame_est s =
     (let N = int (number_of_nodes (network s)) in
      case node_element s current_key of
        Inl e \<Rightarrow> (Inl e, s)
      | Inr current_elem \<Rightarrow>
         (let use_1 = connector_1_state (heap s ! current_elem);
              c = (if use_1 then - 1 else 1);
              (a, b) = flip_multipliers flip c
          in case (if placed_by = ''robot'' then a else b) of
               None \<Rightarrow> (Inl UnboundLocalError, s)
             | Some m \<Rightarrow>
                (let new_elem = (heap s ! current_elem)
                        \<lparr>geometry := rf_unit_transform K (geometry (heap s ! current_elem))
                                       use_1 (placed_by = ''robot'') m angle shift_value\<rparr>;
                     my_new_elem = length (heap s);
                     s1 = snd (add_element K new_elem None None
                                 [(''placed_by'', VStr placed_by), (''on_ground'', VBool on_ground),
                                  (''frame_id'', frame_id), (''frame_est'', frame_est),
                                  (''is_built'', VBool True)] s);
                     s2 = s1\<lparr>network :=
                            (if unit_index = 0
                             then add_edge current_key N [(''edge_to'', VStr ''neighbour'')] (network s1)
                             else add_edge current_key N [(''edge_to'', VStr ''parent'')]
                                    (add_edge (N - 1) N [(''edge_to'', VStr ''parent'')] (network s1)))\<rparr>
                 in case update_connectors_states current_key flip my_new_elem unit_index s2 of
                      (Inl e, s3) \<Rightarrow> (Inl e, s3)
                    | (Inr u, s3) \<Rightarrow>
                        if unit_index = 1 then
                          (if connector_1_state (heap s3 ! current_elem)
                           then (Inr my_new_elem,
                                 s3\<lparr>heap := set_connector_1_state current_elem False (heap s3)\<rparr>)
                           else (Inr my_new_elem,
                                 s3\<lparr>heap := set_connector_2_state current_elem False (heap s3)\<rparr>))
                        else (Inr my_new_elem, s3))))"

text \<open>\<^verbatim>\<open>self.network.nodes_where({'element': my_new_elem})\<close>: the keys of the nodes that hold
  this object.\<close>

definition nodes_where_element :: "'g Network \<Rightarrow> nat \<Rightarrow> int list" where
  "nodes_where_element nw a =
     map fst (filter (\<lambda>(k, d). map_of d ''element'' = Some (VElem a)) (node nw))"

text \<open>\<^verbatim>\<open>Assembly.close_rf_unit\<close>: the robot's unit, then the human's. Both calls pass
  \<^verbatim>\<open>on_ground=False\<close>. The result is the pair \<^verbatim>\<open>(keys_human, keys_robot)\<close> of the returned
  dictionary.\<close>

definition close_rf_unit ::
  "'g geo_kernel \<Rightarrow> int \<Rightarrow> string \<Rightarrow> real \<Rightarrow> real \<Rightarrow> bool \<Rightarrow> 'g val \<Rightarrow> 'g val \<Rightarrow>
   'g Assembly \<Rightarrow> (error + int list \<times> int list) \<times> 'g Assembly"
where
  "close_rf_unit K current_key flip angle shift_value on_ground added_frame_id frame_est s =
     (case add_rf_unit_element K current_key flip angle shift_value ''robot'' False 0 VNone VNone s of
        (Inl e, s1) \<Rightarrow> (Inl e, s1)
      | (Inr elem_robot, s1) \<Rightarrow>
          (let keys_robot = nodes_where_element (network s1) elem_robot in
           case add_rf_unit_element K current_key flip angle shift_value ''human'' False 1
                  added_frame_id frame_est s1 of
             (Inl e, s2) \<Rightarrow> (Inl e, s2)
           | (Inr elem_human, s2) \<Rightarrow>
               (Inr (nodes_where_element (network s2) elem_human, keys_robot), s2)))"

text \<open>
  \<^verbatim>\<open>Assembly.range_filter\<close>: the loop over \<^verbatim>\<open>self.elements()\<close>, node by node in insertion
  order; \<open>ur_range_min = 0.75\<close> and \<open>ur_range_max = 1.3\<close>. A node without an element stops
  the loop with \<^verbatim>\<open>KeyError\<close>, the earlier writes standing.
\<close>

fun range_filter_loop ::
  "'g geo_kernel \<Rightarrow> 'g \<Rightarrow> int list \<Rightarrow> 'g Assembly \<Rightarrow> (error + unit) \<times> 'g Assembly"
where
  "range_filter_loop K base_frame [] s = (Inr (), s)"
| "range_filter_loop K base_frame (key # keys) s =
     (case node_element s key of
        Inl e \<Rightarrow> (Inl e, s)
      | Inr element \<Rightarrow>
          (let el = heap s ! element in
           if connector_1_state el = True then
             (let distance = connector_distance K (geometry el) True base_frame in
              if \<not> (75 / 100 \<le> distance \<and> distance \<le> 13 / 10)
              then range_filter_loop K base_frame keys
                     (s\<lparr>heap := set_connector_1_state element False (heap s)\<rparr>)
              else range_filter_loop K base_frame keys s)
           else if connector_2_state el = True then
             (let distance = connector_distance K (geometry el) False base_frame in
              if \<not> (75 / 100 \<le> distance \<and> distance \<le> 13 / 10)
              then range_filter_loop K base_frame keys
                     (s\<lparr>heap := set_connector_2_state element False (heap s)\<rparr>)
              else range_filter_loop K base_frame keys s)
           else range_filter_loop K base_frame keys s))"

definition range_filter ::
  "'g geo_kernel \<Rightarrow> 'g \<Rightarrow> 'g Assembly \<Rightarrow> (error + unit) \<times> 'g Assembly"
where
  "range_filter K base_frame s = range_filter_loop K base_frame (map fst (node (network s))) s"

subsection \<open>Sessions\<close>

text \<open>The operations of a build session that touch connector states, with their
  arguments, and a session as the list of its calls. A call that raises leaves the
  assembly as it was at the raise, and the session goes on from there.\<close>

datatype 'g operation =
    Add_rf_unit_element int string real real string bool int "'g val" "'g val"
  | Close_rf_unit int string real real bool "'g val" "'g val"
  | Update_connectors_states int string nat int
  | Range_filter 'g

fun perform :: "'g geo_kernel \<Rightarrow> 'g operation \<Rightarrow> 'g Assembly \<Rightarrow> 'g Assembly" where
  "perform K (Add_rf_unit_element current_key flip angle shift_value placed_by on_ground unit_index
               frame_id frame_est) s =
     snd (add_rf_unit_element K current_key flip angle shift_value placed_by on_ground unit_index
            frame_id frame_est s)"
| "perform K (Close_rf_unit current_key flip angle shift_value on_ground added_frame_id frame_est) s =
     snd (close_rf_unit K current_key flip angle shift_value on_ground added_frame_id frame_est s)"
| "perform K (Update_connectors_states current_key flip my_new_elem unit_index) s =
     snd (update_connectors_states current_key flip my_new_elem unit_index s)"
| "perform K (Range_filter base_frame) s = snd (range_filter K base_frame s)"

definition session :: "'g geo_kernel \<Rightarrow> 'g operation list \<Rightarrow> 'g Assembly \<Rightarrow> 'g Assembly" where
  "session K ops s = fold (perform K) ops s"

subsection \<open>Assemblies built by the library's own calls\<close>

text \<open>
  The assemblies the placement code is written for: the node keys are \<open>0, ..., N - 1\<close> in
  insertion order (every node was added without an explicit key, so that the number of
  nodes is the next key), every node holds an element of the store, every edge joins two
  nodes, and a dictionary has each key once.
\<close>

definition well_formed :: "'g Assembly \<Rightarrow> bool" where
  "well_formed s \<longleftrightarrow>
     map fst (node (network s)) = map int [0..<number_of_nodes (network s)] \<and>
     max_node (network s) = int (number_of_nodes (network s)) - 1 \<and>
     list_all (\<lambda>(k, d). case map_of d ''element'' of
                           Some (VElem a) \<Rightarrow> a < length (heap s)
                         | _ \<Rightarrow> False) (node (network s)) \<and>
     list_all (\<lambda>((u, v), d). 0 \<le> u \<and> u < int (number_of_nodes (network s)) \<and>
                             0 \<le> v \<and> v < int (number_of_nodes (network s)))
       (edge (network s)) \<and>
     distinct (map fst (attr_dict_default s))"

text \<open>The four flip codes.\<close>

definition valid_flip :: "string \<Rightarrow> bool" where
  "valid_flip flip \<longleftrightarrow> flip = ''AA'' \<or> flip = ''AB'' \<or> flip = ''BA'' \<or> flip = ''BB''"

subsection \<open>A small assembly on a line\<close>

text \<open>Geometry is a real number, the position on a line; the connectors sit half a unit
  to either side. The assembly holds one element at 0 with both connectors open, added by
  \<^verbatim>\<open>add_element(element)\<close> to an empty assembly.\<close>

definition ex_geo :: "real geo_kernel" where
  "ex_geo =
     \<lparr>frame_point = (\<lambda>g. (g, 0, 0)),
      rf_unit_transform =
        (\<lambda>g use_1 robot m angle shift_value.
           g + (if use_1 then - 1 else 1) * (if robot then 1 / 2 else 1) + real_of_int m + shift_value),
      connector_distance = (\<lambda>g use_1 base_frame. \<bar>g + (if use_1 then - 1 / 2 else 1 / 2) - base_frame\<bar>)\<rparr>"

definition ex_element :: "real Element" where
  "ex_element = \<lparr>geometry = 0, connector_1_state = True, connector_2_state = True\<rparr>"

definition ex_empty :: "real Assembly" where
  "ex_empty = \<lparr>network = \<lparr>node = [], edge = [], max_node = - 1\<rparr>, heap = [], attr_dict_default = []\<rparr>"

definition ex_assembly :: "real Assembly" where
  "ex_assembly =
     \<lparr>network =
        \<lparr>node = [(0, [(''x'', VNum 0), (''y'', VNum 0), (''z'', VNum 0), (''element'', VElem 0)])],
         edge = [], max_node = 0\<rparr>,
      heap = [ex_element], attr_dict_default = []\<rparr>"

text \<open>The same assembly with both connectors of its element closed.\<close>

definition ex_closed :: "real Assembly" where
  "ex_closed =
     ex_assembly\<lparr>heap := [\<lparr>geometry = 0, connector_1_state = False, connector_2_state = False\<rparr>]\<rparr>"

text \<open>An assembly of two elements: the one at 0 and a neighbour placed on it.\<close>

definition ex_pair :: "real Assembly" where
  "ex_pair =
     \<lparr>network =
        \<lparr>node = [(0, [(''x'', VNum 0), (''y'', VNum 0), (''z'', VNum 0), (''element'', VElem 0)]),
                 (1, [(''x'', VNum 1), (''y'', VNum 0), (''z'', VNum 0), (''element'', VElem 1)])],
         edge = [((0, 1), [(''edge_to'', VStr ''neighbour'')])], max_node = 1\<rparr>,
      heap = [ex_element, ex_element\<lparr>geometry := 1\<rparr>], attr_dict_default = []\<rparr>"

text \<open>A session on it: the transition table run for element 0, then the range filter
  for a base frame at 5.\<close>

definition ex_session :: "real operation list" where
  "ex_session = [Update_connectors_states 0 ''AA'' 1 1, Range_filter 5]"

subsection \<open>Connector monotonicity as a relation between stores\<close>

text \<open>The store \<open>h'\<close> holds every object of \<open>h\<close>, and no connector that is closed in \<open>h\<close>
  is open in \<open>h'\<close>.\<close>

definition no_reopen :: "'g Element list \<Rightarrow> 'g Element list \<Rightarrow> bool" where
  "no_reopen h h' \<longleftrightarrow>
     length h \<le> length h' \<and>
     (\<forall>a < length h.
        (connector_1_state (h' ! a) \<longrightarrow> connector_1_state (h ! a)) \<and>
        (connector_2_state (h' ! a) \<longrightarrow> connector_2_state (h ! a)))"

section \<open>The static equilibrium check (assembly/assembly.py, lines 387-457)\<close>

text \<open>\<^verbatim>\<open>Assembly.elements()\<close>: the elements of the nodes in insertion order; the generator
  raises \<^verbatim>\<open>KeyError\<close> at a node without an element.\<close>

fun elements_loop :: "'g Assembly \<Rightarrow> int list \<Rightarrow> error + 'g Element list" where
  "elements_loop s [] = Inr []"
| "elements_loop s (key # keys) =
     (case node_element s key of
        Inl e \<Rightarrow> Inl e
      | Inr a \<Rightarrow>
          (case elements_loop s keys of
             Inl e \<Rightarrow> Inl e
           | Inr es \<Rightarrow> Inr (heap s ! a # es)))"

definition elements :: "'g Assembly \<Rightarrow> error + 'g Element list" where
  "elements s = elements_loop s (map fst (node (network s)))"

text \<open>
  The solids and their measures come from the CAD host; the model takes them as
  parameters over the host's solids \<open>'b\<close>:
  \<^item> \<open>element_cylinder\<close>: the thin cylinder built on an element's frame (lines 396-404);
  \<^item> \<open>SurfaceVolume\<close>, \<open>SurfaceVolumeCentroid\<close>: \<^verbatim>\<open>rs.SurfaceVolume(b)[0]\<close> and
    \<^verbatim>\<open>rs.SurfaceVolumeCentroid(b)[0]\<close>;
  \<^item> \<open>IsPointInSurface_sa support pt\<close>: \<^verbatim>\<open>rs.IsPointInSurface(sa, pt)\<close> for the solid \<open>sa\<close>
    that lines 407-409 extrude from the bounding box of the support, "the support area
    in which the resultant shall lie": true when the point is inside it.
\<close>

record ('g, 'b) rhino_kernel =
  element_cylinder :: "'g \<Rightarrow> 'b"
  SurfaceVolume :: "'b \<Rightarrow> real"
  SurfaceVolumeCentroid :: "'b \<Rightarrow> real \<times> real \<times> real"
  IsPointInSurface_sa :: "'b \<Rightarrow> real \<times> real \<times> real \<Rightarrow> bool"

text \<open>
  The local variables the loop of lines 425-452 carries from step to step. \<open>s_int\<close> and
  \<open>res\<close> are not bound before the loop assigns them (\<open>None\<close>); \<open>res\<close> is the resultant
  line, from \<open>(x, y, 0)\<close> to \<open>(x, y, sum of the volumes)\<close>.
\<close>

record scan_state =
  res_pos_x :: real
  res_pos_y :: real
  static_equilibrium :: bool
  allow_temp_support :: bool
  s_int :: "nat option"
  res :: "((real \<times> real \<times> real) \<times> (real \<times> real \<times> real)) option"

text \<open>
  The loop \<^verbatim>\<open>for i in range(len(e))\<close>, over the index, the volume and the planar centroid
  of each solid. \<open>s_glob\<close> is bound (to \<open>True\<close>) only when the call allowed temporary
  support (line 393); reading it unbound at line 438 raises \<^verbatim>\<open>UnboundLocalError\<close>. The
  three tests on \<open>se_loc\<close> are those of lines 441, 444 and 447, as written.
\<close>

fun equilibrium_loop ::
  "(real \<times> real \<times> real \<Rightarrow> bool) \<Rightarrow> real list \<Rightarrow> bool option \<Rightarrow>
   (nat \<times> real \<times> real \<times> real \<times> real) list \<Rightarrow> scan_state \<Rightarrow> error + scan_state"
where
  "equilibrium_loop inside vol s_glob [] st = Inr st"
| "equilibrium_loop inside vol s_glob ((i, v, cx, cy, cz) # rest) st =
     (let m_x = cx * v;
          m_y = cy * v;
          rx = res_pos_x st + m_x;
          ry = res_pos_y st + m_y;
          total = sum_list (take (i + 1) vol)
      in if total = 0 then Inl ZeroDivisionError
         else
           (let res_pos_x_loc = rx / total;
                res_pos_y_loc = ry / total;
                res_loc = ((res_pos_x_loc, res_pos_y_loc, 0), (res_pos_x_loc, res_pos_y_loc, total));
                se_loc = inside (res_pos_x_loc, res_pos_y_loc, 0)
            in case s_glob of
                 None \<Rightarrow> Inl UnboundLocalError
               | Some g \<Rightarrow>
                  (case (if g = True \<and> allow_temp_support st = False
                         then (case s_int st of
                                 None \<Rightarrow> Inl UnboundLocalError
                               | Some k \<Rightarrow> Inr (if i > k + 1 then True else allow_temp_support st))
                         else Inr (allow_temp_support st)) of
                     Inl e \<Rightarrow> Inl e
                   | Inr allow \<Rightarrow>
                      (let se1 = (if se_loc \<noteq> True then True else static_equilibrium st);
                           se2 = (if se_loc \<noteq> False \<and> allow = False then False else se1);
                           st' = (if se_loc \<noteq> False \<and> allow = True
                                  then st\<lparr>static_equilibrium := True, allow_temp_support := False,
                                          s_int := Some i\<rparr>
                                  else st\<lparr>static_equilibrium := se2, allow_temp_support := allow\<rparr>)
                       in equilibrium_loop inside vol s_glob rest
                            (st'\<lparr>res_pos_x := rx, res_pos_y := ry, res := Some res_loc\<rparr>)))))"

text \<open>Lines 391-424: the solids \<open>e\<close> (the support, the placed elements in order, the
  candidate \<^verbatim>\<open>option_elems[0]\<close>), their volumes and planar centroids, and the variables
  as the loop finds them.\<close>

definition scan_input ::
  "('g, 'b) rhino_kernel \<Rightarrow> 'b \<Rightarrow> 'g Element list \<Rightarrow> 'g Element \<Rightarrow>
   real list \<times> (nat \<times> real \<times> real \<times> real \<times> real) list"
where
  "scan_input R support els option_elem =
     (let e = support # (map (\<lambda>el. element_cylinder R (geometry el)) els
                          @ [element_cylinder R (geometry option_elem)]);
          vol = map (SurfaceVolume R) e;
          cen = map (\<lambda>b. case SurfaceVolumeCentroid R b of (x, y, z) \<Rightarrow> (x, y, 0)) e
      in (vol, zip [0..<length e] (zip vol cen)))"

definition scan_start :: "bool \<Rightarrow> scan_state" where
  "scan_start allow =
     \<lparr>res_pos_x = 0, res_pos_y = 0, static_equilibrium = False, allow_temp_support = allow,
      s_int = None, res = None\<rparr>"

text \<open>
  \<^verbatim>\<open>Assembly.static_equilibrium_check(support, option_elems, allow_temp_support)\<close>: the pair
  \<^verbatim>\<open>(static_equilibrium, res)\<close>. The resultant line is a host object and never equal to
  \<^verbatim>\<open>False\<close>, so line 454 leaves it as it is.
\<close>

definition static_equilibrium_check ::
  "('g, 'b) rhino_kernel \<Rightarrow> 'b \<Rightarrow> 'g Element list \<Rightarrow> bool \<Rightarrow> 'g Assembly \<Rightarrow>
   error + bool \<times> ((real \<times> real \<times> real) \<times> (real \<times> real \<times> real)) option"
where
  "static_equilibrium_check R support option_elems allow s =
     (let s_glob = (if allow = True then Some True else None) in
      case elements s of
        Inl e \<Rightarrow> Inl e
      | Inr els \<Rightarrow>
          (case option_elems of
             [] \<Rightarrow> Inl IndexError
           | option_elem # others \<Rightarrow>
               (case scan_input R support els option_elem of
                  (vol, steps) \<Rightarrow>
                    (case equilibrium_loop (IsPointInSurface_sa R support) vol s_glob steps
                            (scan_start allow) of
                       Inl err \<Rightarrow> Inl err
                     | Inr st \<Rightarrow>
                         (case res st of
                            None \<Rightarrow> Inl UnboundLocalError
                          | Some l \<Rightarrow> Inr (static_equilibrium st, Some l))))))"

subsection \<open>A support and a candidate on the line\<close>

text \<open>
  A solid is its volume and the position of its centroid on the line. The support has
  volume 4 and sits at 0; the support area reaches one unit to either side of it. An
  element's cylinder has volume 1 and sits at the element's position.
\<close>

definition ex_rhino :: "(real, real \<times> real) rhino_kernel" where
  "ex_rhino =
     \<lparr>element_cylinder = (\<lambda>g. (1, g)),
      SurfaceVolume = fst,
      SurfaceVolumeCentroid = (\<lambda>b. (snd b, 0, 0)),
      IsPointInSurface_sa = (\<lambda>support pt. \<bar>fst pt - snd support\<bar> \<le> 1 \<and> \<bar>fst (snd pt)\<bar> \<le> 1)\<rparr>"

definition ex_support :: "real \<times> real" where
  "ex_support = (4, 0)"

section \<open>Properties of the reachability scoring\<close>

subsection \<open>The two scoring loops\<close>

lemma below_threshold_Some [simp]:
  "below_threshold r (Some (l, d)) = (d < r * (1415 / 1000))"
  by (simp add: below_threshold_def)

lemma below_threshold_None [simp]: "below_threshold r None = False"
  by (simp add: below_threshold_def)

lemma sphere_ri_Inr:
  "sphere_ri reuleaux (Some (l, d)) = Inr x \<Longrightarrow> x = ri (spheres reuleaux ! l)"
  by (auto simp: sphere_ri_def split: if_splits)

lemma score_goal_points_spec:
  "score_goal_points r ds rd = Inr rd' \<Longrightarrow>
     \<exists>xs bs. rd' = rd\<lparr>goal_reuleaux_index := goal_reuleaux_index rd @ xs,
                        reachable := reachable rd @ bs\<rparr>
       \<and> length xs = length ds \<and> length bs = length ds
       \<and> (\<forall>i < length ds.
            if below_threshold (resolution r) (fst (ds ! i)) \<and> below_threshold (resolution r) (snd (ds ! i))
            then sphere_ri r (fst (ds ! i)) = Inr (xs ! i) \<and> bs ! i
            else xs ! i = 0 \<and> \<not> bs ! i)"
proof (induction ds arbitrary: rd)
  case Nil
  then show ?case by simp
next
  case (Cons d ds)
  let ?both = "below_threshold (resolution r) (fst d) \<and> below_threshold (resolution r) (snd d)"
  obtain x b where step: "score_goal_points r ds
        (rd\<lparr>goal_reuleaux_index := goal_reuleaux_index rd @ [x], reachable := reachable rd @ [b]\<rparr>) = Inr rd'"
      and xb: "if ?both then sphere_ri r (fst d) = Inr x \<and> b else x = 0 \<and> \<not> b"
    using Cons.prems by (auto split: if_splits sum.splits)
  from Cons.IH[OF step] obtain xs bs where
    rd': "rd' = rd\<lparr>goal_reuleaux_index := goal_reuleaux_index rd @ x # xs,
                   reachable := reachable rd @ b # bs\<rparr>"
    and len: "length xs = length ds" "length bs = length ds"
    and nth: "\<forall>i < length ds.
            if below_threshold (resolution r) (fst (ds ! i)) \<and> below_threshold (resolution r) (snd (ds ! i))
            then sphere_ri r (fst (ds ! i)) = Inr (xs ! i) \<and> bs ! i
            else xs ! i = 0 \<and> \<not> bs ! i"
    by auto
  have "\<forall>i < length (d # ds).
            if below_threshold (resolution r) (fst ((d # ds) ! i)) \<and> below_threshold (resolution r) (snd ((d # ds) ! i))
            then sphere_ri r (fst ((d # ds) ! i)) = Inr ((x # xs) ! i) \<and> (b # bs) ! i
            else (x # xs) ! i = 0 \<and> \<not> (b # bs) ! i"
  proof (intro allI impI)
    fix i assume "i < length (d # ds)"
    then show "if below_threshold (resolution r) (fst ((d # ds) ! i)) \<and> below_threshold (resolution r) (snd ((d # ds) ! i))
            then sphere_ri r (fst ((d # ds) ! i)) = Inr ((x # xs) ! i) \<and> (b # bs) ! i
            else (x # xs) ! i = 0 \<and> \<not> (b # bs) ! i"
      using xb nth by (cases i) simp_all
  qed
  with rd' len show ?case
    by (intro exI[of _ "x # xs"] exI[of _ "b # bs"]) simp
qed

lemma score_collision_points_spec:
  "score_collision_points r ds rd = Inr rd' \<Longrightarrow>
     \<exists>xs. rd' = rd\<lparr>collision_reuleaux_index := collision_reuleaux_index rd @ xs\<rparr>
       \<and> length xs = length ds
       \<and> (\<forall>i < length ds.
            if below_threshold (resolution r) (fst (ds ! i)) \<and> below_threshold (resolution r) (snd (ds ! i))
            then sphere_ri r (fst (ds ! i)) = Inr (xs ! i)
            else xs ! i = 0)"
proof (induction ds arbitrary: rd)
  case Nil
  then show ?case by simp
next
  case (Cons d ds)
  let ?both = "below_threshold (resolution r) (fst d) \<and> below_threshold (resolution r) (snd d)"
  obtain x where step: "score_collision_points r ds
        (rd\<lparr>collision_reuleaux_index := collision_reuleaux_index rd @ [x]\<rparr>) = Inr rd'"
      and xb: "if ?both then sphere_ri r (fst d) = Inr x else x = 0"
    using Cons.prems by (auto split: if_splits sum.splits)
  from Cons.IH[OF step] obtain xs where
    rd': "rd' = rd\<lparr>collision_reuleaux_index := collision_reuleaux_index rd @ x # xs\<rparr>"
    and len: "length xs = length ds"
    and nth: "\<forall>i < length ds.
            if below_threshold (resolution r) (fst (ds ! i)) \<and> below_threshold (resolution r) (snd (ds ! i))
            then sphere_ri r (fst (ds ! i)) = Inr (xs ! i)
            else xs ! i = 0"
    by auto
  have "\<forall>i < length (d # ds).
            if below_threshold (resolution r) (fst ((d # ds) ! i)) \<and> below_threshold (resolution r) (snd ((d # ds) ! i))
            then sphere_ri r (fst ((d # ds) ! i)) = Inr ((x # xs) ! i)
            else (x # xs) ! i = 0"
  proof (intro allI impI)
    fix i assume "i < length (d # ds)"
    then show "if below_threshold (resolution r) (fst ((d # ds) ! i)) \<and> below_threshold (resolution r) (snd ((d # ds) ! i))
            then sphere_ri r (fst ((d # ds) ! i)) = Inr ((x # xs) ! i)
            else (x # xs) ! i = 0"
      using xb nth by (cases i) simp_all
  qed
  with rd' len show ?case
    by (intro exI[of _ "x # xs"]) simp
qed

subsection \<open>What a successful query has done\<close>

lemma add_pose_lookup:
  "add_pose pose score rd self = (key, bm) \<Longrightarrow>
   \<exists>nd. map_of (base_map bm) key = Some nd \<and> mean_reuleaux_index nd = Some score"
  by (auto simp: add_pose_def Let_def update_conv')

lemma set_scores_lookup:
  "set_scores key score rd self = Inr bm \<Longrightarrow>
   \<exists>nd. map_of (base_map bm) key = Some nd \<and> mean_reuleaux_index nd = Some score"
  by (auto simp: set_scores_def update_conv' split: option.splits)

lemma get_reuleaux_success:
  assumes "get_reuleaux_index_by_base_pose K pose reuleaux goal_pointcloud collision_pointcloud self
             = (Inr (key, rd), bm)"
  shows "\<exists>rd1 score nd.
      resolution reuleaux \<noteq> 0
    \<and> score_goal_points reuleaux
        (map (fst (kdtree_transformed K pose (spheres reuleaux))) goal_pointcloud)
        \<lparr>goal_points = goal_pointcloud, collision_points = None,
         reuleaux_points = snd (kdtree_transformed K pose (spheres reuleaux)),
         goal_reuleaux_index = [], collision_reuleaux_index = [], reachable = []\<rparr> = Inr rd1
    \<and> (case collision_pointcloud of
          None \<Rightarrow> rd = rd1
        | Some cps \<Rightarrow>
            score_collision_points reuleaux
              (map (fst (kdtree_transformed K pose (spheres reuleaux))) cps)
              (rd1\<lparr>collision_points := Some cps\<rparr>) = Inr rd)
    \<and> ri_mean (collision_pointcloud \<noteq> None) rd = Inr score
    \<and> map_of (base_map bm) key = Some nd \<and> mean_reuleaux_index nd = Some score"
  using assms
  unfolding get_reuleaux_index_by_base_pose_def Let_def
  by (auto split: if_splits sum.splits option.splits prod.splits
           dest!: add_pose_lookup set_scores_lookup)

lemma ri_mean_value:
  assumes "ri_mean True rd = Inr s"
  shows "goal_reuleaux_index rd \<noteq> [] \<and> collision_reuleaux_index rd \<noteq> []
     \<and> s = round_to_double
           ((real (length (goal_reuleaux_index rd))
               * round_to_double (sum_list (goal_reuleaux_index rd)
                                    / real (length (goal_reuleaux_index rd)))
             - real (length (collision_reuleaux_index rd))
               * round_to_double (sum_list (collision_reuleaux_index rd)
                                    / real (length (collision_reuleaux_index rd))))
            / real (length (goal_reuleaux_index rd) + length (collision_reuleaux_index rd)))"
proof -
  let ?g = "goal_reuleaux_index rd" and ?c = "collision_reuleaux_index rd"
  from assms have g: "?g \<noteq> []" and c: "?c \<noteq> []"
    by (auto simp: ri_mean_def mean_def split: if_splits sum.splits)
  from assms g c have "s = round_to_double
        ((real (length ?g) * round_to_double (sum_list ?g / real (length ?g))
          + real (length ?c) * (round_to_double (sum_list ?c / real (length ?c)) * (- 1)))
         / real (length ?g + length ?c))"
    by (simp add: ri_mean_def mean_def sum_list_replicate)
  with g c show ?thesis by (simp add: algebra_simps)
qed

lemma exact_means_reference:
  assumes "gs \<noteq> []" and "cs \<noteq> []"
    and "round_to_double (sum_list gs / real (length gs)) = sum_list gs / real (length gs)"
    and "round_to_double (sum_list cs / real (length cs)) = sum_list cs / real (length cs)"
  shows "round_to_double
           ((real (length gs) * round_to_double (sum_list gs / real (length gs))
             - real (length cs) * round_to_double (sum_list cs / real (length cs)))
            / real (length gs + length cs))
         = round_to_double (reference_score gs cs)"
  using assms by (simp add: reference_score_def)

subsection \<open>Doubles\<close>

lemma round_to_double_eval:
  assumes "x \<noteq> 0" and "2 powr of_int e \<le> \<bar>x\<bar>" and "\<bar>x\<bar> < 2 powr (of_int e + 1)"
    and "- 1022 \<le> e"
  shows "round_to_double x
           = of_int (round_half_even (x / 2 powr (of_int e - 52))) * 2 powr (of_int e - 52)"
proof -
  from assms(1) have "0 < \<bar>x\<bar>" by simp
  then have "\<lfloor>log 2 \<bar>x\<bar>\<rfloor> = e"
    using assms(2,3) by (simp add: floor_log_eq_powr_iff)
  with assms(1,4) show ?thesis by (simp add: round_to_double_def Let_def max_def)
qed

lemma round_to_double_0 [simp]: "round_to_double 0 = 0"
  by (simp add: round_to_double_def)

lemma round_to_double_1 [simp]: "round_to_double 1 = 1"
  using round_to_double_eval[of 1 0] by (simp add: round_half_even_def powr_minus)

lemma round_to_double_2 [simp]: "round_to_double 2 = 2"
  using round_to_double_eval[of 2 1] by (simp add: round_half_even_def powr_minus)

lemma round_to_double_4 [simp]: "round_to_double 4 = 4"
  using round_to_double_eval[of 4 2] by (simp add: round_half_even_def powr_minus)

lemma round_to_double_7 [simp]: "round_to_double 7 = 7"
  using round_to_double_eval[of 7 2] by (simp add: round_half_even_def powr_minus)

lemma round_to_double_minus_1 [simp]: "round_to_double (- 1) = - 1"
  using round_to_double_eval[of "- 1" 0] by (simp add: round_half_even_def powr_minus)

lemma round_to_double_minus_3_2 [simp]: "round_to_double (- (3 / 2)) = - (3 / 2)"
  using round_to_double_eval[of "- (3 / 2)" 0] by (simp add: round_half_even_def powr_minus)

text \<open>One third is no double: the nearest one is \<open>6004799503160661 / 2^54\<close>, below it.\<close>

lemma round_to_double_third [simp]:
  "round_to_double (1 / 3) = 6004799503160661 / 18014398509481984"
  using round_to_double_eval[of "1 / 3" "- 2"] by (simp add: round_half_even_def powr_minus)

lemma round_to_double_2_minus_56 [simp]:
  "round_to_double (1 / 72057594037927936) = 1 / 72057594037927936"
  using round_to_double_eval[of "1 / 72057594037927936" "- 56"]
  by (simp add: round_half_even_def powr_minus)

subsection \<open>Runs on the small datasets\<close>

lemma ex_run:
  "get_reuleaux_index_by_base_pose ex_kernel 0 ex_reuleaux [2829 / 2000, 100]
     (Some [14146 / 10000]) ex_base_map
   = (Inr (0, ex_rd), ex_base_map_1)"
  by (simp add: get_reuleaux_index_by_base_pose_def ex_kernel_def ex_reuleaux_def
        ex_base_map_def ex_base_map_1_def ex_rd_def sphere_ri_def ri_mean_def mean_def add_pose_def)

lemma ex_run_merge:
  "get_reuleaux_index_by_base_pose ex_kernel 0 ex_reuleaux [2829 / 2000]
     (Some [14146 / 10000]) ex_base_map_1
   = (Inr (0, ex_rd_2),
      \<lparr>base_map = [(0, \<lparr>frame = 0, mean_reuleaux_index = Some (- (3 / 2)),
                          reuleaux_data = Some ex_rd_2\<rparr>)],
       base_max_node = 0\<rparr>)"
  by (simp add: get_reuleaux_index_by_base_pose_def ex_kernel_def ex_reuleaux_def
        ex_base_map_1_def ex_rd_2_def sphere_ri_def ri_mean_def mean_def set_scores_def)

lemma ex_run_unit:
  "get_reuleaux_index_by_base_pose ex_kernel 0 ex_unit [2 / 5] (Some [100, 200, 2 / 5]) ex_base_map
   = (Inr (0, \<lparr>goal_points = [2 / 5], collision_points = Some [100, 200, 2 / 5],
               reuleaux_points = [0, 1], goal_reuleaux_index = [1],
               collision_reuleaux_index = [0, 0, 1], reachable = [True]\<rparr>),
      \<lparr>base_map =
         [(0, \<lparr>frame = 0, mean_reuleaux_index = Some (1 / 72057594037927936),
               reuleaux_data = Some \<lparr>goal_points = [2 / 5], collision_points = Some [100, 200, 2 / 5],
                 reuleaux_points = [0, 1], goal_reuleaux_index = [1],
                 collision_reuleaux_index = [0, 0, 1], reachable = [True]\<rparr>\<rparr>)],
       base_max_node = 0\<rparr>)"
  by (simp add: get_reuleaux_index_by_base_pose_def ex_kernel_def ex_unit_def
        ex_base_map_def sphere_ri_def ri_mean_def mean_def add_pose_def)

subsection \<open>The scoring rule\<close>

lemma goal_point_scored:
  assumes "get_reuleaux_index_by_base_pose K pose reuleaux goal_pointcloud collision_pointcloud self
             = (Inr (key, rd), bm)"
    and "i < length goal_pointcloud"
  shows "length (goal_reuleaux_index rd) = length goal_pointcloud
    \<and> length (reachable rd) = length goal_pointcloud
    \<and> (case fst (kdtree_transformed K pose (spheres reuleaux)) (goal_pointcloud ! i) of
          (Some (l0, d0), Some (l1, d1)) \<Rightarrow>
            if d0 < resolution reuleaux * (1415 / 1000) \<and> d1 < resolution reuleaux * (1415 / 1000)
            then goal_reuleaux_index rd ! i = ri (spheres reuleaux ! l0) \<and> reachable rd ! i
            else goal_reuleaux_index rd ! i = 0 \<and> \<not> reachable rd ! i
        | _ \<Rightarrow> goal_reuleaux_index rd ! i = 0 \<and> \<not> reachable rd ! i)"
proof -
  let ?kd = "fst (kdtree_transformed K pose (spheres reuleaux))"
  let ?rd0 = "\<lparr>goal_points = goal_pointcloud, collision_points = None,
         reuleaux_points = snd (kdtree_transformed K pose (spheres reuleaux)),
         goal_reuleaux_index = [], collision_reuleaux_index = [], reachable = []\<rparr>"
  from get_reuleaux_success[OF assms(1)] obtain rd1 where
    goal: "score_goal_points reuleaux (map ?kd goal_pointcloud) ?rd0 = Inr rd1"
    and coll: "case collision_pointcloud of
          None \<Rightarrow> rd = rd1
        | Some cps \<Rightarrow> score_collision_points reuleaux (map ?kd cps)
              (rd1\<lparr>collision_points := Some cps\<rparr>) = Inr rd"
    by blast
  let ?ds = "map ?kd goal_pointcloud"
  from score_goal_points_spec[OF goal] obtain xs bs where
    rd1': "rd1 = ?rd0\<lparr>goal_reuleaux_index := goal_reuleaux_index ?rd0 @ xs,
                       reachable := reachable ?rd0 @ bs\<rparr>"
    and len': "length xs = length ?ds" "length bs = length ?ds"
    and nth: "\<forall>i < length ?ds.
            if below_threshold (resolution reuleaux) (fst (?ds ! i))
             \<and> below_threshold (resolution reuleaux) (snd (?ds ! i))
            then sphere_ri reuleaux (fst (?ds ! i)) = Inr (xs ! i) \<and> bs ! i
            else xs ! i = 0 \<and> \<not> bs ! i"
    by blast
  from rd1' have rd1: "goal_reuleaux_index rd1 = xs" "reachable rd1 = bs" by simp_all
  from len' have len: "length xs = length goal_pointcloud" "length bs = length goal_pointcloud"
    by simp_all
  have same: "goal_reuleaux_index rd = xs \<and> reachable rd = bs"
  proof (cases collision_pointcloud)
    case None
    with coll rd1 show ?thesis by simp
  next
    case (Some cps)
    with coll have "score_collision_points reuleaux (map ?kd cps)
              (rd1\<lparr>collision_points := Some cps\<rparr>) = Inr rd" by simp
    from score_collision_points_spec[OF this] rd1 show ?thesis by auto
  qed
  have dsi: "?ds ! i = ?kd (goal_pointcloud ! i)" and ilen: "i < length ?ds"
    using assms(2) by simp_all
  from nth[rule_format, OF ilen] have one:
    "if below_threshold (resolution reuleaux) (fst (?kd (goal_pointcloud ! i)))
             \<and> below_threshold (resolution reuleaux) (snd (?kd (goal_pointcloud ! i)))
     then sphere_ri reuleaux (fst (?kd (goal_pointcloud ! i))) = Inr (xs ! i) \<and> bs ! i
     else xs ! i = 0 \<and> \<not> bs ! i"
    unfolding dsi .
  obtain n0 n1 where n: "?kd (goal_pointcloud ! i) = (n0, n1)" by (cases "?kd (goal_pointcloud ! i)")
  from one have "case (n0, n1) of
          (Some (l0, d0), Some (l1, d1)) \<Rightarrow>
            if d0 < resolution reuleaux * (1415 / 1000) \<and> d1 < resolution reuleaux * (1415 / 1000)
            then xs ! i = ri (spheres reuleaux ! l0) \<and> bs ! i
            else xs ! i = 0 \<and> \<not> bs ! i
        | _ \<Rightarrow> xs ! i = 0 \<and> \<not> bs ! i"
    unfolding n by (auto split: option.splits if_splits dest: sphere_ri_Inr)
  with same len n show ?thesis by (auto split: option.splits)
qed

lemma collision_point_scored:
  assumes "get_reuleaux_index_by_base_pose K pose reuleaux goal_pointcloud (Some cps) self
             = (Inr (key, rd), bm)"
    and "j < length cps"
  shows "length (collision_reuleaux_index rd) = length cps
    \<and> (case fst (kdtree_transformed K pose (spheres reuleaux)) (cps ! j) of
          (Some (l0, d0), Some (l1, d1)) \<Rightarrow>
            if d0 < resolution reuleaux * (1415 / 1000) \<and> d1 < resolution reuleaux * (1415 / 1000)
            then collision_reuleaux_index rd ! j = ri (spheres reuleaux ! l0)
            else collision_reuleaux_index rd ! j = 0
        | _ \<Rightarrow> collision_reuleaux_index rd ! j = 0)"
proof -
  let ?kd = "fst (kdtree_transformed K pose (spheres reuleaux))"
  let ?rd0 = "\<lparr>goal_points = goal_pointcloud, collision_points = None,
         reuleaux_points = snd (kdtree_transformed K pose (spheres reuleaux)),
         goal_reuleaux_index = [], collision_reuleaux_index = [], reachable = []\<rparr>"
  from get_reuleaux_success[OF assms(1)] obtain rd1 where
    goal: "score_goal_points reuleaux (map ?kd goal_pointcloud) ?rd0 = Inr rd1"
    and coll: "score_collision_points reuleaux (map ?kd cps)
              (rd1\<lparr>collision_points := Some cps\<rparr>) = Inr rd"
    by auto
  from score_goal_points_spec[OF goal] have c1: "collision_reuleaux_index rd1 = []" by auto
  let ?ds = "map ?kd cps"
  let ?rd1 = "rd1\<lparr>collision_points := Some cps\<rparr>"
  from score_collision_points_spec[OF coll] obtain xs where
    rd': "rd = ?rd1\<lparr>collision_reuleaux_index := collision_reuleaux_index ?rd1 @ xs\<rparr>"
    and len': "length xs = length ?ds"
    and nth: "\<forall>i < length ?ds.
            if below_threshold (resolution reuleaux) (fst (?ds ! i))
             \<and> below_threshold (resolution reuleaux) (snd (?ds ! i))
            then sphere_ri reuleaux (fst (?ds ! i)) = Inr (xs ! i)
            else xs ! i = 0"
    by blast
  from rd' c1 have same: "collision_reuleaux_index rd = xs" by simp
  from len' have len: "length xs = length cps" by simp
  have dsj: "?ds ! j = ?kd (cps ! j)" and jlen: "j < length ?ds"
    using assms(2) by simp_all
  from nth[rule_format, OF jlen] have one:
    "if below_threshold (resolution reuleaux) (fst (?kd (cps ! j)))
             \<and> below_threshold (resolution reuleaux) (snd (?kd (cps ! j)))
     then sphere_ri reuleaux (fst (?kd (cps ! j))) = Inr (xs ! j)
     else xs ! j = 0"
    unfolding dsj .
  obtain n0 n1 where n: "?kd (cps ! j) = (n0, n1)" by (cases "?kd (cps ! j)")
  from one have "case (n0, n1) of
          (Some (l0, d0), Some (l1, d1)) \<Rightarrow>
            if d0 < resolution reuleaux * (1415 / 1000) \<and> d1 < resolution reuleaux * (1415 / 1000)
            then xs ! j = ri (spheres reuleaux ! l0)
            else xs ! j = 0
        | _ \<Rightarrow> xs ! j = 0"
    unfolding n by (auto split: option.splits if_splits dest: sphere_ri_Inr)
  with same len n show ?thesis by (auto split: option.splits)
qed

text \<open>
  C3, as the code has it. The threshold of the source is \<open>resolution * 1.415\<close>, compared
  strictly. For every goal point of a query that returns: when the tree finds two samples
  and both distances are below \<open>resolution * 1.415\<close>, the point's entry of
  \<^verbatim>\<open>goal_reuleaux_index\<close> is the \<open>ri\<close> of the nearest sample and its entry of
  \<^verbatim>\<open>reachable\<close> is true; in every other case (one distance at or above the threshold, or
  fewer than two samples) the entries are 0 and false. The entry of
  \<^verbatim>\<open>collision_reuleaux_index\<close> of every collision point follows the same rule.
\<close>

theorem scoring_rule_threshold:
  assumes "get_reuleaux_index_by_base_pose K pose reuleaux goal_pointcloud collision_pointcloud self
             = (Inr (key, rd), bm)"
  shows "(\<forall>i < length goal_pointcloud.
            case fst (kdtree_transformed K pose (spheres reuleaux)) (goal_pointcloud ! i) of
              (Some (l0, d0), Some (l1, d1)) \<Rightarrow>
                if d0 < resolution reuleaux * (1415 / 1000) \<and> d1 < resolution reuleaux * (1415 / 1000)
                then goal_reuleaux_index rd ! i = ri (spheres reuleaux ! l0) \<and> reachable rd ! i
                else goal_reuleaux_index rd ! i = 0 \<and> \<not> reachable rd ! i
            | _ \<Rightarrow> goal_reuleaux_index rd ! i = 0 \<and> \<not> reachable rd ! i)
     \<and> (\<forall>cps j. collision_pointcloud = Some cps \<and> j < length cps \<longrightarrow>
            (case fst (kdtree_transformed K pose (spheres reuleaux)) (cps ! j) of
               (Some (l0, d0), Some (l1, d1)) \<Rightarrow>
                 if d0 < resolution reuleaux * (1415 / 1000) \<and> d1 < resolution reuleaux * (1415 / 1000)
                 then collision_reuleaux_index rd ! j = ri (spheres reuleaux ! l0)
                 else collision_reuleaux_index rd ! j = 0
             | _ \<Rightarrow> collision_reuleaux_index rd ! j = 0))"
proof (intro conjI allI impI)
  fix i assume "i < length goal_pointcloud"
  from goal_point_scored[OF assms this, THEN conjunct2, THEN conjunct2]
  show "case fst (kdtree_transformed K pose (spheres reuleaux)) (goal_pointcloud ! i) of
              (Some (l0, d0), Some (l1, d1)) \<Rightarrow>
                if d0 < resolution reuleaux * (1415 / 1000) \<and> d1 < resolution reuleaux * (1415 / 1000)
                then goal_reuleaux_index rd ! i = ri (spheres reuleaux ! l0) \<and> reachable rd ! i
                else goal_reuleaux_index rd ! i = 0 \<and> \<not> reachable rd ! i
            | _ \<Rightarrow> goal_reuleaux_index rd ! i = 0 \<and> \<not> reachable rd ! i"
    .
next
  fix cps j assume c: "collision_pointcloud = Some cps \<and> j < length cps"
  from collision_point_scored[OF assms[unfolded conjunct1[OF c]] conjunct2[OF c], THEN conjunct2]
  show "case fst (kdtree_transformed K pose (spheres reuleaux)) (cps ! j) of
               (Some (l0, d0), Some (l1, d1)) \<Rightarrow>
                 if d0 < resolution reuleaux * (1415 / 1000) \<and> d1 < resolution reuleaux * (1415 / 1000)
                 then collision_reuleaux_index rd ! j = ri (spheres reuleaux ! l0)
                 else collision_reuleaux_index rd ! j = 0
             | _ \<Rightarrow> collision_reuleaux_index rd ! j = 0"
    .
qed

theorem scoring_rule_threshold_witness:
  "fst (kdtree_transformed ex_kernel 0 (spheres ex_reuleaux)) ([2829 / 2000, 100] ! 0)
       = (Some (0, 2829 / 2000), Some (1, 14146 / 10000))
   \<and> (14146 / 10000 :: real) < resolution ex_reuleaux * (1415 / 1000)
   \<and> goal_reuleaux_index ex_rd ! 0 = ri (spheres ex_reuleaux ! 0) \<and> reachable ex_rd ! 0
   \<and> fst (kdtree_transformed ex_kernel 0 (spheres ex_reuleaux)) ([2829 / 2000, 100] ! 1)
       = (Some (1, 100 - 28291 / 10000), Some (0, 100))
   \<and> goal_reuleaux_index ex_rd ! 1 = 0 \<and> \<not> reachable ex_rd ! 1
   \<and> fst (kdtree_transformed ex_kernel 0 (spheres ex_reuleaux)) ([14146 / 10000] ! 0)
       = (Some (1, 2829 / 2000), Some (0, 14146 / 10000))
   \<and> collision_reuleaux_index ex_rd ! 0 = ri (spheres ex_reuleaux ! 1)"
proof -
  note all = scoring_rule_threshold[OF ex_run]
  from all have g: "\<forall>i < length [2829 / 2000, 100 :: real].
            case fst (kdtree_transformed ex_kernel 0 (spheres ex_reuleaux)) ([2829 / 2000, 100] ! i) of
              (Some (l0, d0), Some (l1, d1)) \<Rightarrow>
                if d0 < resolution ex_reuleaux * (1415 / 1000) \<and> d1 < resolution ex_reuleaux * (1415 / 1000)
                then goal_reuleaux_index ex_rd ! i = ri (spheres ex_reuleaux ! l0) \<and> reachable ex_rd ! i
                else goal_reuleaux_index ex_rd ! i = 0 \<and> \<not> reachable ex_rd ! i
            | _ \<Rightarrow> goal_reuleaux_index ex_rd ! i = 0 \<and> \<not> reachable ex_rd ! i"
    by (rule conjunct1)
  from g[rule_format, of 0] g[rule_format, of 1]
       all[THEN conjunct2, rule_format, of "[14146 / 10000]" 0]
  show ?thesis
    by (simp add: ex_kernel_def ex_reuleaux_def)
qed

text \<open>
  The claim as stated, with \<open>resolution * sqrt 2\<close> as the radius, fails: at resolution 1 a
  goal point whose two nearest samples are 1.4145 and 1.4146 away is farther than \<open>sqrt 2\<close>
  from both, and is scored with the index 4 of the nearer one and marked reachable.
\<close>

theorem scoring_sqrt2_counterexample:
  "fst (kdtree_transformed ex_kernel 0 (spheres ex_reuleaux)) (2829 / 2000)
       = (Some (0, 2829 / 2000), Some (1, 14146 / 10000))
   \<and> resolution ex_reuleaux * sqrt 2 < 2829 / 2000
   \<and> resolution ex_reuleaux * sqrt 2 < 14146 / 10000
   \<and> map_sum id (\<lambda>(key, rd). (goal_reuleaux_index rd, reachable rd))
        (fst (get_reuleaux_index_by_base_pose ex_kernel 0 ex_reuleaux [2829 / 2000] None ex_base_map))
      = Inr ([4], [True])"
proof -
  have "sqrt 2 < (2829 / 2000 :: real)"
    by (rule real_less_lsqrt) (simp_all add: power2_eq_square)
  moreover have "sqrt 2 < (14146 / 10000 :: real)"
    by (rule real_less_lsqrt) (simp_all add: power2_eq_square)
  ultimately show ?thesis
    by (simp add: get_reuleaux_index_by_base_pose_def ex_kernel_def ex_reuleaux_def
        ex_base_map_def sphere_ri_def ri_mean_def mean_def add_pose_def)
qed

subsection \<open>The aggregate score\<close>

text \<open>
  C4, as the code has it. When a collision point cloud is supplied and the query returns,
  both clouds are non-empty, the two index lists have one entry per point, and the score
  stored under the returned key (\<^verbatim>\<open>mean_reuleaux_index\<close>), whether the node is new or
  an existing one is overwritten, is the double nearest to
  \<open>(n_goal * g - n_collision * c) / (n_goal + n_collision)\<close>, where \<open>g\<close> and \<open>c\<close> are the
  goal mean and the collision mean, each already rounded to a double. When both means are
  doubles as they stand, that is the double nearest to the reference
  (sum of the goal indices - sum of the collision indices) / (number of goal points +
  number of collision points).
\<close>

theorem aggregate_score_rounded:
  assumes "get_reuleaux_index_by_base_pose K pose reuleaux goal_pointcloud (Some cps) self
             = (Inr (key, rd), bm)"
  shows "goal_pointcloud \<noteq> [] \<and> cps \<noteq> []
     \<and> length (goal_reuleaux_index rd) = length goal_pointcloud
     \<and> length (collision_reuleaux_index rd) = length cps
     \<and> (\<exists>nd. map_of (base_map bm) key = Some nd
           \<and> mean_reuleaux_index nd =
               Some (round_to_double
                 ((real (length (goal_reuleaux_index rd))
                     * round_to_double (sum_list (goal_reuleaux_index rd)
                                          / real (length (goal_reuleaux_index rd)))
                   - real (length (collision_reuleaux_index rd))
                     * round_to_double (sum_list (collision_reuleaux_index rd)
                                          / real (length (collision_reuleaux_index rd))))
                  / real (length (goal_reuleaux_index rd) + length (collision_reuleaux_index rd))))
           \<and> (round_to_double (sum_list (goal_reuleaux_index rd)
                                  / real (length (goal_reuleaux_index rd)))
                 = sum_list (goal_reuleaux_index rd) / real (length (goal_reuleaux_index rd))
               \<and> round_to_double (sum_list (collision_reuleaux_index rd)
                                     / real (length (collision_reuleaux_index rd)))
                 = sum_list (collision_reuleaux_index rd)
                     / real (length (collision_reuleaux_index rd))
               \<longrightarrow> mean_reuleaux_index nd =
                     Some (round_to_double
                       (reference_score (goal_reuleaux_index rd) (collision_reuleaux_index rd)))))"
proof -
  let ?kd = "fst (kdtree_transformed K pose (spheres reuleaux))"
  from get_reuleaux_success[OF assms] obtain rd1 score nd where
    goal: "score_goal_points reuleaux (map ?kd goal_pointcloud)
        \<lparr>goal_points = goal_pointcloud, collision_points = None,
         reuleaux_points = snd (kdtree_transformed K pose (spheres reuleaux)),
         goal_reuleaux_index = [], collision_reuleaux_index = [], reachable = []\<rparr> = Inr rd1"
    and coll: "score_collision_points reuleaux (map ?kd cps)
              (rd1\<lparr>collision_points := Some cps\<rparr>) = Inr rd"
    and score: "ri_mean True rd = Inr score"
    and nd: "map_of (base_map bm) key = Some nd" "mean_reuleaux_index nd = Some score"
    by auto
  from score_goal_points_spec[OF goal] have l1: "length (goal_reuleaux_index rd1) = length goal_pointcloud"
    and c1: "collision_reuleaux_index rd1 = []"
    by auto
  from score_collision_points_spec[OF coll] l1 c1
  have lens: "length (goal_reuleaux_index rd) = length goal_pointcloud"
       "length (collision_reuleaux_index rd) = length cps"
    by auto
  note val = ri_mean_value[OF score]
  from val lens have ne: "goal_pointcloud \<noteq> []" "cps \<noteq> []" by auto
  from val have gne: "goal_reuleaux_index rd \<noteq> []" and cne: "collision_reuleaux_index rd \<noteq> []"
    by simp_all
  show ?thesis
  proof (intro conjI)
    show "\<exists>nd. map_of (base_map bm) key = Some nd
           \<and> mean_reuleaux_index nd =
               Some (round_to_double
                 ((real (length (goal_reuleaux_index rd))
                     * round_to_double (sum_list (goal_reuleaux_index rd)
                                          / real (length (goal_reuleaux_index rd)))
                   - real (length (collision_reuleaux_index rd))
                     * round_to_double (sum_list (collision_reuleaux_index rd)
                                          / real (length (collision_reuleaux_index rd))))
                  / real (length (goal_reuleaux_index rd) + length (collision_reuleaux_index rd))))
           \<and> (round_to_double (sum_list (goal_reuleaux_index rd)
                                  / real (length (goal_reuleaux_index rd)))
                 = sum_list (goal_reuleaux_index rd) / real (length (goal_reuleaux_index rd))
               \<and> round_to_double (sum_list (collision_reuleaux_index rd)
                                     / real (length (collision_reuleaux_index rd)))
                 = sum_list (collision_reuleaux_index rd)
                     / real (length (collision_reuleaux_index rd))
               \<longrightarrow> mean_reuleaux_index nd =
                     Some (round_to_double
                       (reference_score (goal_reuleaux_index rd) (collision_reuleaux_index rd))))"
      using nd val exact_means_reference[OF gne cne]
      by (intro exI[of _ nd]) simp
  qed (use ne lens in simp_all)
qed

theorem aggregate_score_rounded_witness:
  "map_of (base_map ex_base_map_1) 0
     = Some \<lparr>frame = 0, mean_reuleaux_index = Some (- 1), reuleaux_data = Some ex_rd\<rparr>
   \<and> reference_score (goal_reuleaux_index ex_rd) (collision_reuleaux_index ex_rd) = - 1
   \<and> round_to_double (sum_list (goal_reuleaux_index ex_rd) / real (length (goal_reuleaux_index ex_rd)))
       = 2
   \<and> round_to_double (- 1) = - 1
   \<and> length (goal_reuleaux_index ex_rd) = 2 \<and> length (collision_reuleaux_index ex_rd) = 1
   \<and> map_option mean_reuleaux_index
        (map_of (base_map (snd (get_reuleaux_index_by_base_pose ex_kernel 0 ex_reuleaux
                                  [2829 / 2000] (Some [14146 / 10000]) ex_base_map_1))) 0)
       = Some (Some (- (3 / 2)))
   \<and> reference_score (goal_reuleaux_index ex_rd_2) (collision_reuleaux_index ex_rd_2) = - (3 / 2)
   \<and> round_to_double (- (3 / 2)) = - (3 / 2)"
proof -
  have merged: "map_option mean_reuleaux_index
        (map_of (base_map (snd (get_reuleaux_index_by_base_pose ex_kernel 0 ex_reuleaux
                                  [2829 / 2000] (Some [14146 / 10000]) ex_base_map_1))) 0)
       = Some (Some (- (3 / 2)))"
    unfolding ex_run_merge by simp
  from aggregate_score_rounded[OF ex_run] aggregate_score_rounded[OF ex_run_merge]
  show ?thesis
    unfolding merged
    by (simp add: ex_rd_def ex_rd_2_def ex_base_map_1_def reference_score_def)
qed

text \<open>
  The claim as stated, an equality with the reference, fails in doubles: with the goal
  index list \<open>[1]\<close> and the collision index list \<open>[0, 0, 1]\<close> the collision mean is the
  double below one third, and the stored score is \<open>2^-56\<close>, where the reference is 0.
\<close>

theorem aggregate_score_counterexample:
  "map_sum id (\<lambda>(key, rd). (goal_reuleaux_index rd, collision_reuleaux_index rd))
        (fst (get_reuleaux_index_by_base_pose ex_kernel 0 ex_unit [2 / 5]
                (Some [100, 200, 2 / 5]) ex_base_map))
      = Inr ([1], [0, 0, 1])
   \<and> map (\<lambda>(key, nd). (key, mean_reuleaux_index nd))
        (base_map (snd (get_reuleaux_index_by_base_pose ex_kernel 0 ex_unit [2 / 5]
                          (Some [100, 200, 2 / 5]) ex_base_map)))
      = [(0, Some (1 / 72057594037927936))]
   \<and> reference_score [1] [0, 0, 1] = 0
   \<and> round_to_double (reference_score [1] [0, 0, 1]) = 0"
  by (simp add: ex_run_unit reference_score_def)

subsection \<open>Resolution zero\<close>

text \<open>
  C9. A dataset whose resolution is 0 makes the query raise \<^verbatim>\<open>ValueError\<close> at its first
  statement: no score is computed or returned, whatever the pose, the point clouds and the
  spatial index are, and the base-pose map is left exactly as it was.
\<close>

theorem resolution_zero_raises:
  "resolution reuleaux = 0 \<Longrightarrow>
   get_reuleaux_index_by_base_pose K pose reuleaux goal_pointcloud collision_pointcloud self
     = (Inl ValueError, self)"
  by (simp add: get_reuleaux_index_by_base_pose_def)

theorem resolution_zero_raises_witness:
  "resolution (ex_reuleaux\<lparr>resolution := 0\<rparr>) = 0
   \<and> get_reuleaux_index_by_base_pose ex_kernel 0 (ex_reuleaux\<lparr>resolution := 0\<rparr>)
        [2829 / 2000, 100] (Some [14146 / 10000]) ex_base_map
      = (Inl ValueError, ex_base_map)"
  using resolution_zero_raises[of "ex_reuleaux\<lparr>resolution := 0\<rparr>" ex_kernel 0
          "[2829 / 2000, 100]" "Some [14146 / 10000]" ex_base_map]
  by simp

section \<open>Properties of the assembly\<close>

subsection \<open>Dictionaries, nodes and edges\<close>

lemma ex_assembly_built: "add_element ex_geo ex_element None None [] ex_empty = (0, ex_assembly)"
  by (simp add: add_element_def ex_geo_def ex_element_def ex_empty_def ex_assembly_def
        add_node_def dict_update_def)

lemma ex_assembly_well_formed: "well_formed ex_assembly"
  by (simp add: well_formed_def ex_assembly_def number_of_nodes_def)

lemma update_fresh: "map_of al k = None \<Longrightarrow> AList.update k v al = al @ [(k, v)]"
  by (induction al) auto

lemma well_formed_node:
  assumes "well_formed s" and "0 \<le> k" and "k < int (number_of_nodes (network s))"
  shows "\<exists>a d. map_of (node (network s)) k = Some d \<and> map_of d ''element'' = Some (VElem a)
           \<and> a < length (heap s) \<and> node_element s k = Inr a"
proof -
  let ?ns = "node (network s)"
  from assms have "k \<in> set (map fst ?ns)"
    unfolding well_formed_def number_of_nodes_def
    by (auto simp: image_iff intro!: bexI[of _ "nat k"])
  then obtain d where d: "map_of ?ns k = Some d"
    by (metis map_of_eq_None_iff not_None_eq set_map)
  then have "(k, d) \<in> set ?ns" by (rule map_of_SomeD)
  with assms(1) have "case map_of d ''element'' of
                           Some (VElem a) \<Rightarrow> a < length (heap s) | _ \<Rightarrow> False"
    unfolding well_formed_def list_all_iff by auto
  then obtain a where "map_of d ''element'' = Some (VElem a)" "a < length (heap s)"
    by (cases "map_of d ''element''"; cases "the (map_of d ''element'')") simp_all
  with d show ?thesis by (auto simp: node_element_def)
qed

lemma well_formed_fresh_key:
  assumes "well_formed s"
  shows "map_of (node (network s)) (int (number_of_nodes (network s))) = None"
proof -
  from assms have "int (number_of_nodes (network s)) \<notin> set (map fst (node (network s)))"
    unfolding well_formed_def by auto
  then show ?thesis by (simp add: map_of_eq_None_iff)
qed

lemma well_formed_fresh_edge:
  assumes "well_formed s"
  shows "map_of (edge (network s)) (u, int (number_of_nodes (network s))) = None"
proof -
  from assms have "(u, int (number_of_nodes (network s))) \<notin> fst ` set (edge (network s))"
    unfolding well_formed_def list_all_iff by fastforce
  then show ?thesis by (simp add: map_of_eq_None_iff)
qed

lemma add_element_well_formed:
  assumes "well_formed s"
  shows "\<exists>d. network (snd (add_element K element None None kwattr s))
           = (network s)\<lparr>node := node (network s) @ [(int (number_of_nodes (network s)), d)],
                         max_node := int (number_of_nodes (network s))\<rparr>"
proof -
  from assms have mx: "max_node (network s) + 1 = int (number_of_nodes (network s))"
    unfolding well_formed_def by simp
  show ?thesis
    unfolding add_element_def add_node_def Let_def
    by (auto simp: mx well_formed_fresh_key[OF assms] update_fresh split: prod.splits)
qed

lemma add_edge_existing:
  assumes "map_of (node nw) u = Some du" and "map_of (node nw) v = Some dv"
  shows "add_edge u v kwattr nw =
     nw\<lparr>edge := AList.update (u, v)
                  (dict_update (case map_of (edge nw) (u, v) of None \<Rightarrow> [] | Some d \<Rightarrow> d) kwattr)
                  (edge nw)\<rparr>"
  unfolding add_edge_def Let_def by (simp add: assms)

lemma node_element_Inr_iff:
  "node_element s k = Inr a \<longleftrightarrow>
     (\<exists>d. map_of (node (network s)) k = Some d \<and> map_of d ''element'' = Some (VElem a)
          \<and> a < length (heap s))"
proof (cases "map_of (node (network s)) k")
  case None
  then show ?thesis by (simp add: node_element_def)
next
  case (Some d)
  show ?thesis
  proof (cases "map_of d ''element''")
    case None
    with Some show ?thesis by (simp add: node_element_def)
  next
    case (Some v)
    with \<open>map_of (node (network s)) k = Some d\<close> show ?thesis
      by (cases v) (auto simp: node_element_def)
  qed
qed

lemma update_connectors_states_succeeds:
  assumes "node_element s current_key = Inr c"
    and "2 \<le> number_of_nodes (network s)"
    and "node_element s (int (number_of_nodes (network s)) - 2) = Inr p"
  shows "fst (update_connectors_states current_key flip my_new_elem unit_index s) = Inr ()"
  using assms by (simp add: update_connectors_states_def Let_def)

lemma update_connectors_states_network [simp]:
  "network (snd (update_connectors_states current_key flip my_new_elem unit_index s)) = network s"
  unfolding update_connectors_states_def Let_def
  by (simp split: sum.splits)

lemma flip_multipliers_valid:
  "valid_flip flip \<Longrightarrow> \<exists>a b. flip_multipliers flip c = (Some a, Some b)"
  by (auto simp: valid_flip_def flip_multipliers_def)

lemma flip_multipliers_invalid:
  "\<not> valid_flip flip \<Longrightarrow> flip_multipliers flip c = (None, None)"
  by (simp add: valid_flip_def flip_multipliers_def)

lemma placement_tail:
  assumes "fst (update_connectors_states current_key flip my_new_elem unit_index s2) = Inr ()"
  shows "fst (case update_connectors_states current_key flip my_new_elem unit_index s2 of
        (Inl e, s3) \<Rightarrow> (Inl e, s3)
      | (Inr u, s3) \<Rightarrow>
          if unit_index = 1 then
            (if connector_1_state (heap s3 ! current_elem)
             then (Inr my_new_elem, s3\<lparr>heap := set_connector_1_state current_elem False (heap s3)\<rparr>)
             else (Inr my_new_elem, s3\<lparr>heap := set_connector_2_state current_elem False (heap s3)\<rparr>))
          else (Inr my_new_elem, s3)) = Inr my_new_elem
     \<and> network (snd (case update_connectors_states current_key flip my_new_elem unit_index s2 of
        (Inl e, s3) \<Rightarrow> (Inl e, s3)
      | (Inr u, s3) \<Rightarrow>
          if unit_index = 1 then
            (if connector_1_state (heap s3 ! current_elem)
             then (Inr my_new_elem, s3\<lparr>heap := set_connector_1_state current_elem False (heap s3)\<rparr>)
             else (Inr my_new_elem, s3\<lparr>heap := set_connector_2_state current_elem False (heap s3)\<rparr>))
          else (Inr my_new_elem, s3))) = network s2"
proof -
  obtain r s3 where eq: "update_connectors_states current_key flip my_new_elem unit_index s2 = (r, s3)"
    by (cases "update_connectors_states current_key flip my_new_elem unit_index s2")
  from assms eq have r: "r = Inr ()" by simp
  from update_connectors_states_network[of current_key flip my_new_elem unit_index s2] eq
  have "network s3 = network s2" by simp
  then show ?thesis unfolding eq r by simp
qed

lemma placement_result:
  fixes s :: "'g Assembly"
  assumes wf: "well_formed s"
    and k: "0 \<le> current_key" "current_key < int (number_of_nodes (network s))"
    and flip: "valid_flip flip"
  shows "fst (add_rf_unit_element K current_key flip angle shift_value placed_by on_ground
                unit_index frame_id frame_est s) = Inr (length (heap s))
    \<and> (\<exists>d. node (network (snd (add_rf_unit_element K current_key flip angle shift_value placed_by
                on_ground unit_index frame_id frame_est s)))
            = node (network s) @ [(int (number_of_nodes (network s)), d)])
    \<and> edge (network (snd (add_rf_unit_element K current_key flip angle shift_value placed_by
                on_ground unit_index frame_id frame_est s)))
        = edge (network s) @
           (if unit_index = 0
            then [((current_key, int (number_of_nodes (network s))), [(''edge_to'', VStr ''neighbour'')])]
            else if current_key = int (number_of_nodes (network s)) - 1
            then [((int (number_of_nodes (network s)) - 1, int (number_of_nodes (network s))),
                   [(''edge_to'', VStr ''parent'')])]
            else [((int (number_of_nodes (network s)) - 1, int (number_of_nodes (network s))),
                   [(''edge_to'', VStr ''parent'')]),
                  ((current_key, int (number_of_nodes (network s))),
                   [(''edge_to'', VStr ''parent'')])])"
proof -
  let ?N = "int (number_of_nodes (network s))"
  from well_formed_node[OF wf k] obtain cur where
    ne: "node_element s current_key = Inr cur" and cur: "cur < length (heap s)" by blast
  from k have "0 \<le> ?N - 1" "?N - 1 < ?N" by simp_all
  from well_formed_node[OF wf this] obtain prv where
    pe: "node_element s (?N - 1) = Inr prv" by blast
  let ?use_1 = "connector_1_state (heap s ! cur)"
  let ?c = "if ?use_1 then - 1 else (1::int)"
  from flip_multipliers_valid[OF flip] obtain a b where
    fm: "flip_multipliers flip ?c = (Some a, Some b)" by blast
  let ?m = "if placed_by = ''robot'' then a else b"
  have m: "(if placed_by = ''robot'' then Some a else Some b) = Some ?m" by simp
  define new_elem where "new_elem = (heap s ! cur)\<lparr>geometry := rf_unit_transform K (geometry (heap s ! cur))
                                       ?use_1 (placed_by = ''robot'') ?m angle shift_value\<rparr>"
  define s1 where "s1 = snd (add_element K new_elem None None
                                 [(''placed_by'', VStr placed_by), (''on_ground'', VBool on_ground),
                                  (''frame_id'', frame_id), (''frame_est'', frame_est),
                                  (''is_built'', VBool True)] s)"
  define nw2 where "nw2 = (if unit_index = 0
                             then add_edge current_key ?N [(''edge_to'', VStr ''neighbour'')] (network s1)
                             else add_edge current_key ?N [(''edge_to'', VStr ''parent'')]
                                    (add_edge (?N - 1) ?N [(''edge_to'', VStr ''parent'')] (network s1)))"
  define s2 where "s2 = s1\<lparr>network := nw2\<rparr>"
  from add_element_well_formed[OF wf] obtain d where
    nw1: "network s1 = (network s)\<lparr>node := node (network s) @ [(?N, d)], max_node := ?N\<rparr>"
    unfolding s1_def by blast
  have heap1: "heap s1 = heap s @ [new_elem]"
    unfolding s1_def by (simp add: add_element_def Let_def split: prod.splits)
  from ne obtain dk where old_k: "map_of (node (network s)) current_key = Some dk"
    and dk: "map_of dk ''element'' = Some (VElem cur)"
    unfolding node_element_Inr_iff by blast
  from pe obtain dp where old_p: "map_of (node (network s)) (?N - 1) = Some dp"
    and dp: "map_of dp ''element'' = Some (VElem prv)" and prv: "prv < length (heap s)"
    unfolding node_element_Inr_iff by blast
  have node1: "node (network s1) = node (network s) @ [(?N, d)]" unfolding nw1 by simp
  have e1: "edge (network s1) = edge (network s)" unfolding nw1 by simp
  have n1_k: "map_of (node (network s1)) current_key = Some dk"
    and n1_p: "map_of (node (network s1)) (?N - 1) = Some dp"
    unfolding node1 using old_k old_p by (simp_all add: map_add_def)
  have n1_n: "map_of (node (network s1)) ?N = Some d"
    unfolding node1 by (simp add: well_formed_fresh_key[OF wf] map_add_def)
  have fresh: "\<And>u. map_of (edge (network s)) (u, ?N) = None"
    by (rule well_formed_fresh_edge[OF wf])
  let ?nb = "[(''edge_to'', VStr ''neighbour'')] :: 'g attrs"
  let ?pa = "[(''edge_to'', VStr ''parent'')] :: 'g attrs"
  have du: "dict_update [] ?nb = ?nb" "dict_update [] ?pa = ?pa" "dict_update ?pa ?pa = ?pa"
    by (simp_all add: dict_update_def)
  have ae0: "add_edge current_key ?N ?nb (network s1)
               = (network s1)\<lparr>edge := edge (network s) @ [((current_key, ?N), ?nb)]\<rparr>"
    unfolding add_edge_existing[OF n1_k n1_n] e1
    by (simp add: fresh update_fresh du)
  define nwp where "nwp = (network s1)\<lparr>edge := edge (network s) @ [((?N - 1, ?N), ?pa)]\<rparr>"
  have ae1: "add_edge (?N - 1) ?N ?pa (network s1) = nwp"
    unfolding add_edge_existing[OF n1_p n1_n] e1 nwp_def
    by (simp add: fresh update_fresh du)
  have enwp: "edge nwp = edge (network s) @ [((?N - 1, ?N), ?pa)]"
    unfolding nwp_def by simp
  have np_k: "map_of (node nwp) current_key = Some dk" and np_n: "map_of (node nwp) ?N = Some d"
    unfolding nwp_def using n1_k n1_n by simp_all
  have ae2: "add_edge current_key ?N ?pa nwp
               = nwp\<lparr>edge := edge (network s) @
                    (if current_key = ?N - 1 then [((?N - 1, ?N), ?pa)]
                     else [((?N - 1, ?N), ?pa), ((current_key, ?N), ?pa)])\<rparr>"
  proof (cases "current_key = ?N - 1")
    case True
    show ?thesis
      by (subst add_edge_existing[OF np_k np_n])
         (simp add: True enwp fresh map_add_def du update_triv)
  next
    case False
    then show ?thesis
      by (subst add_edge_existing[OF np_k np_n])
         (simp add: enwp fresh map_add_def du update_fresh)
  qed
  have nw2_node: "node nw2 = node (network s) @ [(?N, d)]"
    unfolding nw2_def ae0 ae1 ae2 by (simp add: nwp_def node1)
  have nw2_edge: "edge nw2 = edge (network s) @
           (if unit_index = 0
            then [((current_key, ?N), [(''edge_to'', VStr ''neighbour'')])]
            else if current_key = ?N - 1
            then [((?N - 1, ?N), [(''edge_to'', VStr ''parent'')])]
            else [((?N - 1, ?N), [(''edge_to'', VStr ''parent'')]),
                  ((current_key, ?N), [(''edge_to'', VStr ''parent'')])])"
    unfolding nw2_def ae0 ae1 ae2 by simp
  have s2_k: "node_element s2 current_key = Inr cur"
    unfolding node_element_Inr_iff s2_def
    using old_k dk cur by (simp add: nw2_node heap1 map_add_def)
  have s2_p: "node_element s2 (?N - 1) = Inr prv"
    unfolding node_element_Inr_iff s2_def
    using old_p dp prv by (simp add: nw2_node heap1 map_add_def)
  have s2_n: "number_of_nodes (network s2) = number_of_nodes (network s) + 1"
    unfolding s2_def by (simp add: number_of_nodes_def nw2_node)
  have "fst (update_connectors_states current_key flip (length (heap s)) unit_index s2) = Inr ()"
    by (rule update_connectors_states_succeeds[OF s2_k, where p = prv])
       (use k in \<open>simp_all add: s2_n s2_p\<close>)
  note tail = placement_tail[OF this, of cur]
  have unf: "add_rf_unit_element K current_key flip angle shift_value placed_by on_ground
                unit_index frame_id frame_est s =
      (case update_connectors_states current_key flip (length (heap s)) unit_index s2 of
        (Inl e, s3) \<Rightarrow> (Inl e, s3)
      | (Inr u, s3) \<Rightarrow>
          if unit_index = 1 then
            (if connector_1_state (heap s3 ! cur)
             then (Inr (length (heap s)), s3\<lparr>heap := set_connector_1_state cur False (heap s3)\<rparr>)
             else (Inr (length (heap s)), s3\<lparr>heap := set_connector_2_state cur False (heap s3)\<rparr>))
          else (Inr (length (heap s)), s3))"
    unfolding add_rf_unit_element_def Let_def s2_def nw2_def s1_def new_elem_def
    by (simp only: ne sum.case fm prod.case m option.case)
  show ?thesis
    unfolding unf using tail s2_def nw2_node nw2_edge by simp
qed

subsection \<open>Placing a unit: nodes, edges, failures\<close>

lemma ex_closed_well_formed: "well_formed ex_closed"
  by (simp add: well_formed_def ex_closed_def ex_assembly_def number_of_nodes_def)

text \<open>
  C5, as the code has it. On an assembly whose node keys are \<open>0, ..., N - 1\<close>, for a valid
  flip code, either actor and a current element with an open connector, one call returns
  the new element and adds exactly one node, under the key \<open>N\<close>, leaving the other nodes
  as they were. With \<open>unit_index = 0\<close> it adds exactly the edge from \<open>current_key\<close> to \<open>N\<close>,
  tagged \<open>neighbour\<close>. With \<open>unit_index = 1\<close> it adds the edges from \<open>N - 1\<close> and from
  \<open>current_key\<close> to \<open>N\<close>, tagged \<open>parent\<close>: two edges when \<open>current_key\<close> is not \<open>N - 1\<close>,
  and one edge when it is, since the network stores one edge per pair of keys.
\<close>

theorem placement_adds_node_and_edges:
  assumes "well_formed s"
    and "0 \<le> current_key" and "current_key < int (number_of_nodes (network s))"
    and "valid_flip flip"
    and "placed_by = ''robot'' \<or> placed_by = ''human''"
    and "node_element s current_key = Inr current_elem"
    and "connector_1_state (heap s ! current_elem) \<or> connector_2_state (heap s ! current_elem)"
    and "unit_index = 0 \<or> unit_index = 1"
    and "add_rf_unit_element K current_key flip angle shift_value placed_by on_ground unit_index
           frame_id frame_est s = (r, s')"
  shows "r = Inr (length (heap s))
     \<and> number_of_nodes (network s') = number_of_nodes (network s) + 1
     \<and> map fst (node (network s')) = map fst (node (network s)) @ [int (number_of_nodes (network s))]
     \<and> take (number_of_nodes (network s)) (node (network s')) = node (network s)
     \<and> (unit_index = 0 \<longrightarrow>
          edge (network s') = edge (network s) @
            [((current_key, int (number_of_nodes (network s))), [(''edge_to'', VStr ''neighbour'')])])
     \<and> (unit_index = 1 \<and> current_key \<noteq> int (number_of_nodes (network s)) - 1 \<longrightarrow>
          edge (network s') = edge (network s) @
            [((int (number_of_nodes (network s)) - 1, int (number_of_nodes (network s))),
              [(''edge_to'', VStr ''parent'')]),
             ((current_key, int (number_of_nodes (network s))), [(''edge_to'', VStr ''parent'')])])
     \<and> (unit_index = 1 \<and> current_key = int (number_of_nodes (network s)) - 1 \<longrightarrow>
          edge (network s') = edge (network s) @
            [((current_key, int (number_of_nodes (network s))), [(''edge_to'', VStr ''parent'')])])"
proof -
  from placement_result[OF assms(1-4), of K angle shift_value placed_by on_ground unit_index
         frame_id frame_est]
  obtain d where "r = Inr (length (heap s))"
    and "node (network s') = node (network s) @ [(int (number_of_nodes (network s)), d)]"
    and "edge (network s') = edge (network s) @
           (if unit_index = 0
            then [((current_key, int (number_of_nodes (network s))), [(''edge_to'', VStr ''neighbour'')])]
            else if current_key = int (number_of_nodes (network s)) - 1
            then [((int (number_of_nodes (network s)) - 1, int (number_of_nodes (network s))),
                   [(''edge_to'', VStr ''parent'')])]
            else [((int (number_of_nodes (network s)) - 1, int (number_of_nodes (network s))),
                   [(''edge_to'', VStr ''parent'')]),
                  ((current_key, int (number_of_nodes (network s))),
                   [(''edge_to'', VStr ''parent'')])])"
    unfolding assms(9) by auto
  then show ?thesis by (simp add: number_of_nodes_def)
qed

text \<open>
  C8. For a flip code outside \<open>AA\<close>, \<open>AB\<close>, \<open>BA\<close>, \<open>BB\<close> no branch assigns \<open>a\<close> or \<open>b\<close>, no
  table entry is taken as a default, and the call raises before \<^verbatim>\<open>add_element\<close>:
  \<^verbatim>\<open>KeyError\<close> when \<open>current_key\<close> is no node with an element, \<^verbatim>\<open>UnboundLocalError\<close>
  otherwise. The assembly, its nodes and edges among the rest, is exactly as it was.
\<close>

theorem invalid_flip_rejected:
  assumes "\<not> valid_flip flip"
  shows "add_rf_unit_element K current_key flip angle shift_value placed_by on_ground unit_index
           frame_id frame_est s
         = (case node_element s current_key of
              Inl e \<Rightarrow> (Inl e, s)
            | Inr current_elem \<Rightarrow> (Inl UnboundLocalError, s))"
  by (simp add: add_rf_unit_element_def Let_def flip_multipliers_invalid[OF assms]
           split: sum.splits)

theorem invalid_flip_rejected_witness:
  "\<not> valid_flip ''AC''
   \<and> add_rf_unit_element ex_geo 0 ''AC'' 0 0 ''robot'' False 0 VNone VNone ex_assembly
       = (Inl UnboundLocalError, ex_assembly)"
proof -
  have nv: "\<not> valid_flip ''AC''" by (simp add: valid_flip_def)
  have ne: "node_element ex_assembly 0 = Inr 0"
    by (simp add: node_element_def ex_assembly_def)
  from invalid_flip_rejected[OF nv, of ex_geo 0 0 0 "''robot''" False 0 VNone VNone ex_assembly]
  show ?thesis using nv by (simp add: ne)
qed

lemma ex_pair_well_formed: "well_formed ex_pair"
  by (simp add: well_formed_def ex_pair_def number_of_nodes_def upt_rec)

lemma ex_node_elements:
  "node_element ex_assembly 0 = Inr 0" "node_element ex_closed 0 = Inr 0"
  "node_element ex_pair 0 = Inr 0" "node_element ex_pair 1 = Inr 1"
  by (simp_all add: node_element_def ex_assembly_def ex_closed_def ex_pair_def)

lemma ex_sizes:
  "number_of_nodes (network ex_assembly) = 1" "number_of_nodes (network ex_closed) = 1"
  "number_of_nodes (network ex_pair) = 2"
  "edge (network ex_assembly) = []" "edge (network ex_closed) = []"
  "edge (network ex_pair) = [((0, 1), [(''edge_to'', VStr ''neighbour'')])]"
  "length (heap ex_assembly) = 1" "length (heap ex_closed) = 1" "length (heap ex_pair) = 2"
  by (simp_all add: number_of_nodes_def ex_assembly_def ex_closed_def ex_pair_def)

lemma ex_valid_flips: "valid_flip ''AA''" "valid_flip ''AB''" "valid_flip ''BA''" "valid_flip ''BB''"
  by (simp_all add: valid_flip_def)

theorem placement_adds_node_and_edges_witness:
  "well_formed ex_pair \<and> valid_flip ''AB''
   \<and> node_element ex_pair 0 = Inr 0 \<and> connector_1_state (heap ex_pair ! 0)
   \<and> fst (add_rf_unit_element ex_geo 0 ''AB'' 0 0 ''human'' False 1 VNone VNone ex_pair) = Inr 2
   \<and> number_of_nodes (network (snd (add_rf_unit_element ex_geo 0 ''AB'' 0 0 ''human'' False 1
                                      VNone VNone ex_pair))) = 3
   \<and> edge (network (snd (add_rf_unit_element ex_geo 0 ''AB'' 0 0 ''human'' False 1 VNone VNone
                           ex_pair)))
      = [((0, 1), [(''edge_to'', VStr ''neighbour'')]),
         ((1, 2), [(''edge_to'', VStr ''parent'')]),
         ((0, 2), [(''edge_to'', VStr ''parent'')])]"
proof -
  have c: "connector_1_state (heap ex_pair ! 0)" by (simp add: ex_pair_def ex_element_def)
  from placement_adds_node_and_edges[OF ex_pair_well_formed _ _ ex_valid_flips(2) _
         ex_node_elements(3) _ _ surjective_pairing,
         of "''human''" 1 ex_geo 0 0 False VNone VNone] c
  show ?thesis
    by (simp add: ex_sizes ex_pair_well_formed ex_valid_flips ex_node_elements)
qed

text \<open>
  The claim as stated fails where the current element is the previously added one: on the
  assembly of one element, a call with \<open>unit_index = 1\<close> and \<open>current_key = 0\<close> adds one
  edge, not two.
\<close>

theorem same_parent_edge_counterexample:
  "well_formed ex_assembly \<and> valid_flip ''AA''
   \<and> node_element ex_assembly 0 = Inr 0
   \<and> connector_1_state (heap ex_assembly ! 0)
   \<and> number_of_edges (network ex_assembly) = 0
   \<and> fst (add_rf_unit_element ex_geo 0 ''AA'' 0 0 ''human'' False 1 VNone VNone ex_assembly) = Inr 1
   \<and> edge (network (snd (add_rf_unit_element ex_geo 0 ''AA'' 0 0 ''human'' False 1 VNone VNone
                           ex_assembly)))
      = [((0, 1), [(''edge_to'', VStr ''parent'')])]
   \<and> number_of_edges (network (snd (add_rf_unit_element ex_geo 0 ''AA'' 0 0 ''human'' False 1
                                      VNone VNone ex_assembly))) = 1"
proof -
  have c: "connector_1_state (heap ex_assembly ! 0)" by (simp add: ex_assembly_def ex_element_def)
  from placement_result[OF ex_assembly_well_formed _ _ ex_valid_flips(1),
         of 0 ex_geo 0 0 "''human''" False 1 VNone VNone] c
  show ?thesis
    by (simp add: ex_sizes ex_assembly_well_formed ex_valid_flips ex_node_elements
          number_of_edges_def)
qed

lemma update_connectors_states_other_unit:
  "unit_index \<noteq> 1 \<Longrightarrow>
   snd (update_connectors_states current_key flip my_new_elem unit_index s) = s"
  by (simp add: update_connectors_states_def Let_def split: sum.splits)

lemma first_unit_heap:
  assumes "node_element s current_key = Inr cur"
    and "flip_multipliers flip (if connector_1_state (heap s ! cur) then - 1 else 1) = (a, b)"
    and "(if placed_by = ''robot'' then a else b) = Some m"
  shows "heap (snd (add_rf_unit_element K current_key flip angle shift_value placed_by on_ground 0
                      frame_id frame_est s))
         = heap s @ [(heap s ! cur)\<lparr>geometry :=
                        rf_unit_transform K (geometry (heap s ! cur))
                          (connector_1_state (heap s ! cur)) (placed_by = ''robot'') m angle
                          shift_value\<rparr>]"
proof -
  define new_elem where "new_elem = (heap s ! cur)\<lparr>geometry :=
                        rf_unit_transform K (geometry (heap s ! cur))
                          (connector_1_state (heap s ! cur)) (placed_by = ''robot'') m angle
                          shift_value\<rparr>"
  define s1 where "s1 = snd (add_element K new_elem None None
                                 [(''placed_by'', VStr placed_by), (''on_ground'', VBool on_ground),
                                  (''frame_id'', frame_id), (''frame_est'', frame_est),
                                  (''is_built'', VBool True)] s)"
  define s2 where "s2 = s1\<lparr>network :=
       add_edge current_key (int (number_of_nodes (network s)))
         [(''edge_to'', VStr ''neighbour'')] (network s1)\<rparr>"
  have heap2: "heap s2 = heap s @ [new_elem]"
    unfolding s2_def s1_def by (simp add: add_element_def Let_def split: prod.splits)
  obtain r s3 where ucs:
    "update_connectors_states current_key flip (length (heap s)) 0 s2 = (r, s3)"
    by (cases "update_connectors_states current_key flip (length (heap s)) 0 s2")
  from update_connectors_states_other_unit[of 0 current_key flip "length (heap s)" s2] ucs
  have s3: "s3 = s2" by simp
  have "add_rf_unit_element K current_key flip angle shift_value placed_by on_ground 0
          frame_id frame_est s
        = (case (r, s3) of
             (Inl e, s3) \<Rightarrow> (Inl e, s3)
           | (Inr u, s3) \<Rightarrow> (Inr (length (heap s)), s3))"
    unfolding add_rf_unit_element_def Let_def ucs[symmetric] s2_def s1_def new_elem_def
    by (simp only: assms sum.case prod.case option.case if_True if_False refl zero_neq_one)
  then show ?thesis
    unfolding s3 new_elem_def[symmetric] using heap2 by (cases r) simp_all
qed

text \<open>
  C2 does not hold of the code. Lines 199-204 look for the open connector with an
  \<^verbatim>\<open>if\<close>/\<^verbatim>\<open>else\<close> and never test \<open>connector_2_state\<close>: with both connectors of the current
  element closed the \<^verbatim>\<open>else\<close> branch takes connector 2 (\<open>c = 1\<close>) as if it were open. On
  the one-element assembly with both connectors closed the call returns the new element,
  placed on connector frame 2 with the multiplier \<open>b = 1 * c = 1\<close>, and the network has a
  second node and a \<open>neighbour\<close> edge.
\<close>

theorem closed_connectors_placed:
  "node_element ex_closed 0 = Inr 0
   \<and> \<not> connector_1_state (heap ex_closed ! 0) \<and> \<not> connector_2_state (heap ex_closed ! 0)
   \<and> fst (add_rf_unit_element ex_geo 0 ''AB'' 0 0 ''human'' False 0 VNone VNone ex_closed) = Inr 1
   \<and> map fst (node (network ex_closed)) = [0]
   \<and> map fst (node (network (snd (add_rf_unit_element ex_geo 0 ''AB'' 0 0 ''human'' False 0
                                      VNone VNone ex_closed)))) = [0, 1]
   \<and> edge (network ex_closed) = []
   \<and> edge (network (snd (add_rf_unit_element ex_geo 0 ''AB'' 0 0 ''human'' False 0 VNone VNone
                           ex_closed)))
      = [((0, 1), [(''edge_to'', VStr ''neighbour'')])]
   \<and> heap (snd (add_rf_unit_element ex_geo 0 ''AB'' 0 0 ''human'' False 0 VNone VNone ex_closed))
      = heap ex_closed
        @ [\<lparr>geometry = rf_unit_transform ex_geo 0 False False 1 0 0,
            connector_1_state = False, connector_2_state = False\<rparr>]"
proof -
  have c: "\<not> connector_1_state (heap ex_closed ! 0)" "\<not> connector_2_state (heap ex_closed ! 0)"
    and g: "heap ex_closed ! 0 = \<lparr>geometry = 0, connector_1_state = False, connector_2_state = False\<rparr>"
    by (simp_all add: ex_closed_def)
  have n: "map fst (node (network ex_closed)) = [0]" by (simp add: ex_closed_def ex_assembly_def)
  have fm: "flip_multipliers ''AB'' (if connector_1_state (heap ex_closed ! 0) then - 1 else 1)
              = (Some 0, Some 1)"
    using c by (simp add: flip_multipliers_def)
  have m: "(if ''human'' = ''robot'' then Some 0 else Some (1::int)) = Some 1" by simp
  from first_unit_heap[OF ex_node_elements(2) fm m, of ex_geo 0 0 False VNone VNone]
  have h: "heap (snd (add_rf_unit_element ex_geo 0 ''AB'' 0 0 ''human'' False 0 VNone VNone ex_closed))
      = heap ex_closed
        @ [\<lparr>geometry = rf_unit_transform ex_geo 0 False False 1 0 0,
            connector_1_state = False, connector_2_state = False\<rparr>]"
    by (simp add: g)
  from placement_result[OF ex_closed_well_formed _ _ ex_valid_flips(2),
         of 0 ex_geo 0 0 "''human''" False 0 VNone VNone] c n h
  show ?thesis
    by (auto simp: ex_sizes ex_node_elements)
qed

subsection \<open>Connector monotonicity\<close>

lemma no_reopen_refl [simp]: "no_reopen h h"
  by (simp add: no_reopen_def)

lemma no_reopen_trans: "no_reopen h1 h2 \<Longrightarrow> no_reopen h2 h3 \<Longrightarrow> no_reopen h1 h3"
  unfolding no_reopen_def by (meson le_trans less_le_trans)

lemma no_reopen_set_1: "no_reopen h h' \<Longrightarrow> no_reopen h (set_connector_1_state a False h')"
  unfolding no_reopen_def set_connector_1_state_def
  by (auto simp: nth_list_update)

lemma no_reopen_set_2: "no_reopen h h' \<Longrightarrow> no_reopen h (set_connector_2_state a False h')"
  unfolding no_reopen_def set_connector_2_state_def
  by (auto simp: nth_list_update)

lemma no_reopen_append: "no_reopen h h' \<Longrightarrow> no_reopen h (h' @ es)"
  unfolding no_reopen_def by (auto simp: nth_append)

lemma no_reopen_table_2: "no_reopen h h' \<Longrightarrow> no_reopen h (table_connector_2 flip p n h')"
  unfolding table_connector_2_def Let_def
  by (simp add: no_reopen_set_1 no_reopen_set_2)

lemma no_reopen_table_1: "no_reopen h h' \<Longrightarrow> no_reopen h (table_connector_1 flip p n h')"
  unfolding table_connector_1_def Let_def
  by (simp add: no_reopen_set_1 no_reopen_set_2)

lemma update_connectors_states_no_reopen:
  "no_reopen h (heap s) \<Longrightarrow>
   no_reopen h (heap (snd (update_connectors_states current_key flip my_new_elem unit_index s)))"
  unfolding update_connectors_states_def Let_def
  by (simp split: sum.splits add: no_reopen_table_1 no_reopen_table_2)

lemma add_element_heap [simp]:
  "heap (snd (add_element K element key attr_dict kwattr s)) = heap s @ [element]"
  unfolding add_element_def Let_def
  by (simp split: prod.splits)

lemma placement_tail_no_reopen:
  assumes "no_reopen h (heap s2)"
  shows "no_reopen h (heap (snd
     (case update_connectors_states current_key flip my_new_elem unit_index s2 of
        (Inl e, s3) \<Rightarrow> (Inl e, s3)
      | (Inr u, s3) \<Rightarrow>
          if unit_index = 1 then
            (if connector_1_state (heap s3 ! current_elem)
             then (Inr my_new_elem, s3\<lparr>heap := set_connector_1_state current_elem False (heap s3)\<rparr>)
             else (Inr my_new_elem, s3\<lparr>heap := set_connector_2_state current_elem False (heap s3)\<rparr>))
          else (Inr my_new_elem, s3))))"
proof -
  obtain r s3 where eq: "update_connectors_states current_key flip my_new_elem unit_index s2 = (r, s3)"
    by (cases "update_connectors_states current_key flip my_new_elem unit_index s2")
  from update_connectors_states_no_reopen[OF assms, of current_key flip my_new_elem unit_index] eq
  have "no_reopen h (heap s3)" by simp
  then show ?thesis
    unfolding eq by (cases r) (simp_all add: no_reopen_set_1 no_reopen_set_2)
qed

lemma add_rf_unit_element_no_reopen:
  assumes "no_reopen h (heap s)"
  shows "no_reopen h (heap (snd (add_rf_unit_element K current_key flip angle shift_value placed_by
                             on_ground unit_index frame_id frame_est s)))"
proof (cases "node_element s current_key")
  case (Inl e)
  with assms show ?thesis by (simp add: add_rf_unit_element_def)
next
  case (Inr cur)
  obtain a b where
    ab: "flip_multipliers flip (if connector_1_state (heap s ! cur) then - 1 else 1) = (a, b)"
    by (cases "flip_multipliers flip (if connector_1_state (heap s ! cur) then - 1 else 1)")
  show ?thesis
  proof (cases "if placed_by = ''robot'' then a else b")
    case None
    with Inr ab assms show ?thesis by (simp add: add_rf_unit_element_def Let_def)
  next
    case (Some m)
    with Inr ab assms show ?thesis
      by (simp add: add_rf_unit_element_def Let_def placement_tail_no_reopen no_reopen_append)
  qed
qed

lemma close_rf_unit_no_reopen:
  assumes "no_reopen h (heap s)"
  shows "no_reopen h (heap (snd (close_rf_unit K current_key flip angle shift_value on_ground
                             added_frame_id frame_est s)))"
proof -
  obtain r1 s1 where eq1:
    "add_rf_unit_element K current_key flip angle shift_value ''robot'' False 0 VNone VNone s = (r1, s1)"
    by (cases "add_rf_unit_element K current_key flip angle shift_value ''robot'' False 0 VNone VNone s")
  from add_rf_unit_element_no_reopen[OF assms, of K current_key flip angle shift_value
      "''robot''" False 0 VNone VNone] eq1
  have h1: "no_reopen h (heap s1)" by simp
  obtain r2 s2 where eq2:
    "add_rf_unit_element K current_key flip angle shift_value ''human'' False 1
       added_frame_id frame_est s1 = (r2, s2)"
    by (cases "add_rf_unit_element K current_key flip angle shift_value ''human'' False 1
       added_frame_id frame_est s1")
  from add_rf_unit_element_no_reopen[OF h1, of K current_key flip angle shift_value
      "''human''" False 1 added_frame_id frame_est] eq2
  have h2: "no_reopen h (heap s2)" by simp
  show ?thesis
    unfolding close_rf_unit_def Let_def eq1
    using h1 h2 eq2 by (cases r1; cases r2) simp_all
qed

lemma range_filter_loop_no_reopen:
  "no_reopen h (heap s) \<Longrightarrow> no_reopen h (heap (snd (range_filter_loop K base_frame keys s)))"
proof (induction keys arbitrary: s)
  case Nil
  then show ?case by simp
next
  case (Cons key keys)
  show ?case
  proof (cases "node_element s key")
    case (Inl e)
    with Cons.prems show ?thesis by simp
  next
    case (Inr element)
    with Cons.prems show ?thesis
      by (simp add: Let_def Cons.IH no_reopen_set_1 no_reopen_set_2)
  qed
qed

lemma perform_no_reopen: "no_reopen h (heap s) \<Longrightarrow> no_reopen h (heap (perform K op s))"
  by (cases op)
     (simp_all add: add_rf_unit_element_no_reopen close_rf_unit_no_reopen
        update_connectors_states_no_reopen range_filter_def range_filter_loop_no_reopen)

lemma session_no_reopen: "no_reopen h (heap s) \<Longrightarrow> no_reopen h (heap (session K ops s))"
  unfolding session_def
  by (induction ops arbitrary: s) (simp_all add: perform_no_reopen)

text \<open>
  C6. Over every session, made of any calls of \<^verbatim>\<open>add_rf_unit_element\<close>,
  \<^verbatim>\<open>close_rf_unit\<close>, \<^verbatim>\<open>update_connectors_states\<close> and \<^verbatim>\<open>range_filter\<close> with any arguments,
  succeeding or raising, every element of the assembly is still there afterwards, and a
  connector of it that is open afterwards was open before: no closed connector is ever
  reopened.
\<close>

theorem connector_monotonicity:
  assumes "a < length (heap s)"
  shows "a < length (heap (session K ops s))
     \<and> (connector_1_state (heap (session K ops s) ! a) \<longrightarrow> connector_1_state (heap s ! a))
     \<and> (connector_2_state (heap (session K ops s) ! a) \<longrightarrow> connector_2_state (heap s ! a))"
  using session_no_reopen[of "heap s" s K ops] assms
  unfolding no_reopen_def by auto

lemma ex_session_run:
  "heap (session ex_geo ex_session ex_pair)
     = [\<lparr>geometry = 0, connector_1_state = False, connector_2_state = False\<rparr>,
        \<lparr>geometry = 1, connector_1_state = False, connector_2_state = False\<rparr>]"
  by (simp add: session_def ex_session_def ex_pair_def ex_element_def ex_geo_def
        update_connectors_states_def node_element_def number_of_nodes_def
        table_connector_1_def table_connector_2_def
        set_connector_1_state_def set_connector_2_state_def range_filter_def)

theorem connector_monotonicity_witness:
  "(0::nat) < length (heap ex_pair)
   \<and> 0 < length (heap (session ex_geo ex_session ex_pair))
   \<and> connector_1_state (heap ex_pair ! 0) \<and> connector_2_state (heap ex_pair ! 0)
   \<and> \<not> connector_1_state (heap (session ex_geo ex_session ex_pair) ! 0)
   \<and> \<not> connector_2_state (heap (session ex_geo ex_session ex_pair) ! 0)"
proof -
  have a: "(0::nat) < length (heap ex_pair)" by (simp add: ex_pair_def)
  from connector_monotonicity[OF a, of ex_geo ex_session]
  show ?thesis
    by (simp add: ex_session_run) (simp add: ex_pair_def ex_element_def)
qed

subsection \<open>The shared default dictionary of add\_element\<close>

lemma map_of_dict_update:
  "map_of (dict_update d kw) k =
     (case map_of (rev kw) k of None \<Rightarrow> map_of d k | Some v \<Rightarrow> Some v)"
proof (induction kw arbitrary: d)
  case Nil
  then show ?case by (simp add: dict_update_def)
next
  case (Cons p kw)
  obtain k' v' where p: "p = (k', v')" by (cases p)
  have "dict_update d (p # kw) = dict_update (AList.update k' v' d) kw"
    by (simp add: dict_update_def p)
  then show ?case
    by (simp add: Cons.IH p update_conv' map_add_def split: option.splits)
qed

lemma map_of_rev_distinct:
  "distinct (map fst kw) \<Longrightarrow> map_of (rev kw) = map_of kw"
  by (rule map_of_inject_set[THEN iffD2]) (simp_all add: rev_map[symmetric])

lemma dict_update_empty_iff: "dict_update d kw = [] \<longleftrightarrow> d = [] \<and> kw = []"
proof (induction kw arbitrary: d)
  case Nil
  then show ?case by (simp add: dict_update_def)
next
  case (Cons p kw)
  have "dict_update d (p # kw) = dict_update (AList.update (fst p) (snd p) d) kw"
    by (simp add: dict_update_def case_prod_beta)
  then show ?case by (simp add: Cons.IH)
qed

lemma add_node_lookup:
  "add_node key attr_dict kwattr nw = (k, ad, nw') \<Longrightarrow>
   map_of (node nw') k =
     Some (dict_update (case map_of (node nw) k of None \<Rightarrow> [] | Some d \<Rightarrow> d)
             (dict_update attr_dict kwattr))
   \<and> ad = (if attr_dict = [] then [] else dict_update attr_dict kwattr)"
  by (auto simp: add_node_def Let_def update_conv')

lemma map_of_dict_update_distinct:
  "distinct (map fst kw) \<Longrightarrow> map_of (dict_update d kw) = map_of d ++ map_of kw"
  by (rule ext) (simp add: map_of_dict_update map_of_rev_distinct map_add_def)

lemma distinct_dict_update:
  "distinct (map fst d) \<Longrightarrow> distinct (map fst (dict_update d kw))"
proof (induction kw arbitrary: d)
  case Nil
  then show ?case by (simp add: dict_update_def)
next
  case (Cons p kw)
  have "dict_update d (p # kw) = dict_update (AList.update (fst p) (snd p) d) kw"
    by (simp add: dict_update_def case_prod_beta)
  with Cons show ?case by (simp add: distinct_update)
qed

text \<open>
  C10. The default of \<^verbatim>\<open>attr_dict\<close> is one dictionary shared by all calls of
  \<^verbatim>\<open>add_element\<close>. A keyword attribute \<open>k = v\<close> (other than \<open>x\<close>, \<open>y\<close>, \<open>z\<close>, \<open>element\<close>, which
  every call sets itself) given to a call that relies on the default is also an attribute
  of the node created by a later call that relies on the default and gives no keyword
  attribute at all.
\<close>

theorem shared_default_attr_dict:
  assumes "(k, v) \<in> set kwattr" and "distinct (map fst kwattr)"
    and "k \<notin> {''x'', ''y'', ''z'', ''element''}"
    and "distinct (map fst (attr_dict_default s))"
    and "add_element K first_element None None kwattr s = (first_key, s_mid)"
    and "add_element K later_element None None [] s_mid = (later_key, s_end)"
  shows "\<exists>d. map_of (node (network s_end)) later_key = Some d \<and> map_of d k = Some v"
proof -
  let ?ad = "dict_update (attr_dict_default s) kwattr"
  have ad_k: "map_of ?ad k = Some v"
    using assms(1,2) by (simp add: map_of_dict_update_distinct)
  then have ad_ne: "?ad \<noteq> []" by auto
  have ad_d: "distinct (map fst ?ad)" using assms(4) by (rule distinct_dict_update)
  obtain x y z where xyz: "frame_point K (geometry first_element) = (x, y, z)"
    by (cases "frame_point K (geometry first_element)")
  let ?kw1 = "[(''x'', VNum x), (''y'', VNum y), (''z'', VNum z), (''element'', VElem (length (heap s)))]"
  have d1: "attr_dict_default s_mid = dict_update ?ad ?kw1"
    using assms(5) ad_ne
    by (auto simp: add_element_def Let_def xyz add_node_def split: prod.splits)
  have d1_k: "map_of (attr_dict_default s_mid) k = Some v"
    unfolding d1 using assms(3) ad_k by (simp add: map_of_dict_update_distinct map_add_def)
  then have d1_ne: "attr_dict_default s_mid \<noteq> []" by auto
  have d1_d: "distinct (map fst (attr_dict_default s_mid))"
    unfolding d1 using ad_d by (rule distinct_dict_update)
  obtain x' y' z' where xyz': "frame_point K (geometry later_element) = (x', y', z')"
    by (cases "frame_point K (geometry later_element)")
  let ?kw2 = "[(''x'', VNum x'), (''y'', VNum y'), (''z'', VNum z'), (''element'', VElem (length (heap s_mid)))]"
  let ?attr = "dict_update (attr_dict_default s_mid) ?kw2"
  obtain ad' nw' where an: "add_node None (attr_dict_default s_mid) ?kw2 (network s_mid) = (later_key, ad', nw')"
    and s_end: "network s_end = nw'"
    using assms(6)
    by (auto simp: add_element_def Let_def xyz' dict_update_def split: prod.splits)
  let ?old = "case map_of (node (network s_mid)) later_key of None \<Rightarrow> [] | Some d \<Rightarrow> d"
  from add_node_lookup[OF an]
  have look: "map_of (node nw') later_key = Some (dict_update ?old ?attr)" by simp
  have attr_k: "map_of ?attr k = Some v"
    using assms(3) d1_k by (simp add: map_of_dict_update_distinct map_add_def)
  have attr_d: "distinct (map fst ?attr)" using d1_d by (rule distinct_dict_update)
  have "map_of (dict_update ?old ?attr) k = Some v"
    unfolding map_of_dict_update_distinct[OF attr_d] using attr_k by (simp add: map_add_def)
  with look show ?thesis unfolding s_end by blast
qed

lemma ex_first_add:
  "add_element ex_geo ex_element None None [(''placed_by'', VStr ''robot'')] ex_empty
   = (0, \<lparr>network =
           \<lparr>node = [(0, [(''placed_by'', VStr ''robot''), (''x'', VNum 0), (''y'', VNum 0),
                         (''z'', VNum 0), (''element'', VElem 0)])],
            edge = [], max_node = 0\<rparr>,
         heap = [ex_element],
         attr_dict_default = [(''placed_by'', VStr ''robot''), (''x'', VNum 0), (''y'', VNum 0),
                              (''z'', VNum 0), (''element'', VElem 0)]\<rparr>)"
  by (simp add: add_element_def add_node_def ex_geo_def ex_element_def ex_empty_def dict_update_def
        Let_def)

theorem shared_default_attr_dict_witness:
  "(''placed_by'', VStr ''robot'') \<in> set [(''placed_by'', VStr ''robot'')]
   \<and> map_of (node (network ex_empty)) 1 = None
   \<and> fst (add_element ex_geo (ex_element\<lparr>geometry := 1\<rparr>) None None []
            (snd (add_element ex_geo ex_element None None [(''placed_by'', VStr ''robot'')] ex_empty)))
       = 1
   \<and> map_option (\<lambda>d. map_of d ''placed_by'')
        (map_of (node (network
           (snd (add_element ex_geo (ex_element\<lparr>geometry := 1\<rparr>) None None []
                  (snd (add_element ex_geo ex_element None None [(''placed_by'', VStr ''robot'')]
                          ex_empty)))))) 1)
       = Some (Some (VStr ''robot''))"
proof -
  have k1: "fst (add_element ex_geo (ex_element\<lparr>geometry := 1\<rparr>) None None []
            (snd (add_element ex_geo ex_element None None [(''placed_by'', VStr ''robot'')] ex_empty)))
       = 1"
    by (simp add: ex_first_add) (simp add: add_element_def add_node_def ex_geo_def Let_def)
  have d: "distinct (map fst (attr_dict_default ex_empty))" by (simp add: ex_empty_def)
  from shared_default_attr_dict[where k = "''placed_by''" and v = "VStr ''robot''"
          and kwattr = "[(''placed_by'', VStr ''robot'')]" and K = ex_geo
          and first_element = ex_element and later_element = "ex_element\<lparr>geometry := 1\<rparr>"
          and s = ex_empty,
        OF _ _ _ d surjective_pairing surjective_pairing]
  show ?thesis
    unfolding k1 by (auto simp: ex_empty_def)
qed

section \<open>Properties of the static equilibrium check\<close>

subsection \<open>A support with one candidate\<close>

lemma ex_elements_empty: "elements ex_empty = Inr []"
  by (simp add: elements_def ex_empty_def)

lemma ex_scan_input:
  "scan_input ex_rhino ex_support [] (ex_element\<lparr>geometry := g\<rparr>)
     = ([4, 1], [(0, 4, 0, 0, 0), (1, 1, g, 0, 0)])"
  by (simp add: scan_input_def ex_rhino_def ex_support_def ex_element_def upt_rec)

lemma ex_first_step:
  "equilibrium_loop (IsPointInSurface_sa ex_rhino ex_support) [4, 1] (Some True)
     [(0, 4, 0, 0, 0)] (scan_start True)
   = Inr \<lparr>res_pos_x = 0, res_pos_y = 0, static_equilibrium = True, allow_temp_support = False,
          s_int = Some 0, res = Some ((0, 0, 0), (0, 0, 4))\<rparr>"
  by (simp add: scan_start_def ex_rhino_def ex_support_def)

text \<open>
  When temporary support is allowed and the first resultant lies inside the support
  area, the first step already takes the branch of line 447: it records the grant index
  0 and withdraws the permission.
\<close>

lemma inside_first_step_latches:
  assumes "sum_list (take 1 vol) \<noteq> 0"
    and "inside (cx * v / sum_list (take 1 vol), cy * v / sum_list (take 1 vol), 0)"
  shows "\<exists>st. equilibrium_loop inside vol (Some True) [(0, v, cx, cy, cz)] (scan_start True) = Inr st
            \<and> s_int st = Some 0 \<and> \<not> allow_temp_support st \<and> static_equilibrium st"
  using assms by (simp add: scan_start_def Let_def)

text \<open>
  C1 does not hold of the code. The tests of lines 441-447 read \<open>se_loc\<close> the wrong way
  round: a resultant inside the support area (\<open>se_loc\<close> true) is treated as the case that
  needs temporary support. With the support and one candidate right above it, both
  resultants lie inside the support area; the first step records the grant index 0 and
  withdraws the permission, the second step finds the resultant inside with no
  permission left, and the call returns \<open>static_equilibrium = False\<close>.
\<close>

theorem inside_footprint_reported_unstable:
  "IsPointInSurface_sa ex_rhino ex_support (0, 0, 0)
   \<and> map_sum id (\<lambda>st. (static_equilibrium st, s_int st))
        (equilibrium_loop (IsPointInSurface_sa ex_rhino ex_support) [4, 1] (Some True)
           [(0, 4, 0, 0, 0)] (scan_start True))
       = Inr (True, Some 0)
   \<and> static_equilibrium_check ex_rhino ex_support [ex_element\<lparr>geometry := 0\<rparr>] True ex_empty
       = Inr (False, Some ((0, 0, 0), (0, 0, 5)))"
  by (simp add: static_equilibrium_check_def ex_elements_empty ex_scan_input ex_first_step)
     (simp add: scan_start_def ex_rhino_def ex_support_def)

subsection \<open>Temporary support disallowed\<close>

text \<open>
  C7 does not hold of the code. \<open>s_glob\<close> is assigned only when the call allows temporary
  support, and line 438 reads it at every step. With the candidate at 10 the resultant of
  the second step, at 2, lies outside the support area, but the call raises
  \<^verbatim>\<open>UnboundLocalError\<close> at its first step and returns nothing.
\<close>

theorem no_temp_support_raises:
  "\<not> IsPointInSurface_sa ex_rhino ex_support (2, 0, 0)
   \<and> static_equilibrium_check ex_rhino ex_support [ex_element\<lparr>geometry := 10\<rparr>] False ex_empty
       = Inl UnboundLocalError"
  by (simp add: static_equilibrium_check_def ex_elements_empty ex_scan_input)
     (simp add: scan_start_def ex_rhino_def ex_support_def)

text \<open>That holds of every call with temporary support disallowed: the list of solids is
  never empty, and the first step raises (\<^verbatim>\<open>ZeroDivisionError\<close> for a support of volume
  0, \<^verbatim>\<open>UnboundLocalError\<close> otherwise).\<close>

lemma scan_input_nonempty:
  "\<exists>vol v cx cy cz rest. scan_input R support els option_elem = (vol, (0, v, cx, cy, cz) # rest)"
  by (auto simp: scan_input_def Let_def upt_rec[of 0] split: prod.splits)

lemma equilibrium_loop_unbound:
  "equilibrium_loop inside vol None ((i, v, cx, cy, cz) # rest) st \<noteq> Inr st'"
  by (simp add: Let_def)

lemma no_result_without_temp_support:
  "static_equilibrium_check R support option_elems False s \<noteq> Inr x"
proof (cases "elements s")
  case (Inl e)
  then show ?thesis by (simp add: static_equilibrium_check_def)
next
  case (Inr els)
  show ?thesis
  proof (cases option_elems)
    case Nil
    with Inr show ?thesis by (simp add: static_equilibrium_check_def)
  next
    case (Cons option_elem others)
    from scan_input_nonempty[of R support els option_elem]
    obtain vol v cx cy cz rest where
      si: "scan_input R support els option_elem = (vol, (0, v, cx, cy, cz) # rest)" by blast
    from equilibrium_loop_unbound[of "IsPointInSurface_sa R support" vol 0 v cx cy cz rest
           "scan_start False"]
    show ?thesis
      unfolding static_equilibrium_check_def using Inr Cons si
      by (auto split: sum.splits)
  qed
qed

end
